theory Spec2Isabelle
  imports Complex_Main
begin

section \<open>JavaScript values used by the application\<close>

text \<open>
  A JavaScript string is a sequence of UTF-16 code units. Numbers are IEEE doubles in the
  program; here they are the real numbers they denote (NaN is made explicit as
  \<open>None\<close> wherever the program can produce it).
\<close>

type_synonym jsstring = "nat list"

definition js :: "string \<Rightarrow> jsstring" where
  "js s = map of_char s"

text \<open>String comparison \<open>a <= b\<close>: lexicographic on code units.\<close>

fun jsLe :: "jsstring \<Rightarrow> jsstring \<Rightarrow> bool" where
  "jsLe [] ys = True"
| "jsLe (x # xs) [] = False"
| "jsLe (x # xs) (y # ys) = (x < y \<or> (x = y \<and> jsLe xs ys))"

text \<open>Decimal rendering of a non-negative integer inside a template literal.\<close>

definition digitChar :: "nat \<Rightarrow> nat" where
  "digitChar d = 48 + d"

fun showNat :: "nat \<Rightarrow> jsstring" where
  "showNat n = (if n < 10 then [digitChar n] else showNat (n div 10) @ [digitChar (n mod 10)])"

declare showNat.simps [simp del]

text \<open>
  The values a property can hold at run time: those \<open>JSON.parse\<close> returns, and
  \<open>undefined\<close>. An object is the list of its properties.
\<close>

datatype jsvalue =
    JUndefined | JNull | JBool bool | JNum real | JStr jsstring
  | JArr "jsvalue list" | JObj "(jsstring \<times> jsvalue) list"

definition truthy :: "jsvalue \<Rightarrow> bool" where
  "truthy v =
     (case v of
        JUndefined \<Rightarrow> False | JNull \<Rightarrow> False | JBool b \<Rightarrow> b | JNum x \<Rightarrow> x \<noteq> 0
      | JStr s \<Rightarrow> s \<noteq> [] | JArr vs \<Rightarrow> True | JObj kvs \<Rightarrow> True)"

section \<open>Domain model (types.ts)\<close>

text \<open>
  The enumeration object \<open>HMRCCategory\<close>: its twelve members, each with its string value.
  Reading a name that is not a member yields \<open>undefined\<close>. The type annotation
  \<open>HMRCCategory\<close> is erased at run time, so a category field holds whatever value was
  stored in it.
\<close>

definition HMRCCategory :: "(string \<times> jsstring) list" where
  "HMRCCategory =
     [(''RENTAL_INC_001'', js ''RENTAL_INC_001''), (''REPAIRS_101'', js ''REPAIRS_101''),
      (''MGMT_201'', js ''MGMT_201''), (''INSUR_301'', js ''INSUR_301''),
      (''UTIL_401'', js ''UTIL_401''), (''COUNCIL_501'', js ''COUNCIL_501''),
      (''ADVERT_501'', js ''ADVERT_501''), (''PROF_601'', js ''PROF_601''),
      (''MORT_INT_701'', js ''MORT_INT_701''), (''TRAVEL_801'', js ''TRAVEL_801''),
      (''MISC_901'', js ''MISC_901''), (''UNCATEGORIZED'', js ''UNCATEGORIZED'')]"

definition enumMember :: "string \<Rightarrow> jsvalue" where
  "enumMember name =
     (case map_of HMRCCategory name of None \<Rightarrow> JUndefined | Some s \<Rightarrow> JStr s)"

text \<open>The member expressions that occur in the components.\<close>

definition RENTAL_INC_001 :: jsvalue where
  "RENTAL_INC_001 = enumMember ''RENTAL_INC_001''"

definition REPAIRS_101 :: jsvalue where
  "REPAIRS_101 = enumMember ''REPAIRS_101''"

definition MORT_INT_701 :: jsvalue where
  "MORT_INT_701 = enumMember ''MORT_INT_701''"

definition UNCATEGORIZED :: jsvalue where
  "UNCATEGORIZED = enumMember ''UNCATEGORIZED''"

text \<open>
  \<open>HMRCCategory.PERSONAL_000\<close>, as the dashboard, the receipt hub and the export service
  write it. The enumeration declares no such member.
\<close>

definition PERSONAL_000 :: jsvalue where
  "PERSONAL_000 = enumMember ''PERSONAL_000''"

datatype TxStatus = reconciled | pending | flagged

datatype TxSource = bank_upload | manual

datatype OwnerTag = TagD | TagJ

record Transaction =
  tid :: jsstring
  date :: jsstring
  description :: jsstring
  amount :: real
  propertyId :: jsstring
  category :: jsvalue
  status :: TxStatus
  source :: TxSource
  matchedInvoiceId :: "jsstring option"
  tag :: "OwnerTag option"

datatype InvStatus = matched | unmatched | processing

record Invoice =
  iid :: jsstring
  idate :: jsstring
  vendor :: jsstring
  iamount :: real
  idescription :: jsstring
  istatus :: InvStatus
  base64Image :: "jsstring option"
  matchedTransactionId :: "jsstring option"

record Property =
  pid :: jsstring
  pname :: jsstring
  address :: jsstring
  pkeywords :: "jsstring option"

datatype TaxYear = TY2023_2024 | TY2024_2025 | TY2025_2026 | TY2026_2027

text \<open>\<open>parseInt(year.split('-')[0])\<close> on the four period identifiers.\<close>

fun startYear :: "TaxYear \<Rightarrow> nat" where
  "startYear TY2023_2024 = 2023"
| "startYear TY2024_2025 = 2024"
| "startYear TY2025_2026 = 2025"
| "startYear TY2026_2027 = 2026"

definition taxYearStart :: "TaxYear \<Rightarrow> jsstring" where
  "taxYearStart y = showNat (startYear y) @ js ''-04-06''"

definition taxYearEnd :: "TaxYear \<Rightarrow> jsstring" where
  "taxYearEnd y = showNat (startYear y + 1) @ js ''-04-05''"

definition isDateInTaxYear :: "jsstring \<Rightarrow> TaxYear \<Rightarrow> bool" where
  "isDateInTaxYear dateStr y = (jsLe (taxYearStart y) dateStr \<and> jsLe dateStr (taxYearEnd y))"

section \<open>Tax estimation (TaxEstimator, the \<open>estimate\<close> memo)\<close>

record TaxEstimate =
  rentalIncome :: real
  otherExpenses :: real
  financeCosts :: real
  netCashFlow :: real
  taxableProfit :: real
  estimatedTaxBeforeRelief :: real
  financeCostRelief :: real
  finalEstimatedTax :: real
  allowance :: real
  totalIncome :: real
  taxableIncome :: real
  basicTax :: real
  higherTax :: real
  additionalTax :: real

definition yearTransactions :: "Transaction list \<Rightarrow> TaxYear \<Rightarrow> Transaction list" where
  "yearTransactions transactions y = filter (\<lambda>t. isDateInTaxYear (date t) y) transactions"

definition sumRentalIncome :: "Transaction list \<Rightarrow> real" where
  "sumRentalIncome yts = foldl (\<lambda>a b. a + amount b) 0 (filter (\<lambda>t. amount t > 0) yts)"

definition sumFinanceCosts :: "Transaction list \<Rightarrow> real" where
  "sumFinanceCosts yts =
     foldl (\<lambda>a b. a + \<bar>amount b\<bar>) 0 (filter (\<lambda>t. category t = MORT_INT_701) yts)"

definition sumOtherExpenses :: "Transaction list \<Rightarrow> real" where
  "sumOtherExpenses yts =
     foldl (\<lambda>a b. a + \<bar>amount b\<bar>) 0
       (filter (\<lambda>t. amount t < 0 \<and> category t \<noteq> MORT_INT_701) yts)"

definition allowanceFor :: "real \<Rightarrow> real" where
  "allowanceFor tot =
     (if tot > 100000 then max 0 (12570 - (tot - 100000) / 2) else 12570)"

definition taxableIncomeFor :: "real \<Rightarrow> real" where
  "taxableIncomeFor tot = max 0 (tot - allowanceFor tot)"

definition basicBand :: real where
  "basicBand = 37700"

definition higherBand :: real where
  "higherBand = 125140 - 50270"

definition basicTaxOn :: "real \<Rightarrow> real" where
  "basicTaxOn ti = min ti basicBand * 0.20"

definition higherTaxOn :: "real \<Rightarrow> real" where
  "higherTaxOn ti =
     (let remainingTaxable = ti - min ti basicBand
      in if remainingTaxable > 0 then min remainingTaxable higherBand * 0.40 else 0)"

definition additionalTaxOn :: "real \<Rightarrow> real" where
  "additionalTaxOn ti =
     (let remaining1 = ti - min ti basicBand;
          remaining2 = (if remaining1 > 0 then remaining1 - min remaining1 higherBand
                        else remaining1)
      in if remaining2 > 0 then remaining2 * 0.45 else 0)"

definition taxBeforeReliefOn :: "real \<Rightarrow> real" where
  "taxBeforeReliefOn ti = basicTaxOn ti + higherTaxOn ti + additionalTaxOn ti"

definition estimate :: "Transaction list \<Rightarrow> real \<Rightarrow> TaxYear \<Rightarrow> TaxEstimate" where
  "estimate transactions otherIncome y =
     (let yts = yearTransactions transactions y;
          ri = sumRentalIncome yts;
          fc = sumFinanceCosts yts;
          oe = sumOtherExpenses yts;
          tp = max 0 (ri - oe);
          ncf = ri - oe - fc;
          tot = tp + otherIncome;
          al = allowanceFor tot;
          ti = max 0 (tot - al);
          tbr = taxBeforeReliefOn ti;
          relief = min (fc * 0.20) tbr;
          final = max 0 (tbr - relief)
      in \<lparr> rentalIncome = ri, otherExpenses = oe, financeCosts = fc, netCashFlow = ncf,
           taxableProfit = tp, estimatedTaxBeforeRelief = tbr, financeCostRelief = relief,
           finalEstimatedTax = final, allowance = al, totalIncome = tot,
           taxableIncome = ti, basicTax = basicTaxOn ti, higherTax = higherTaxOn ti,
           additionalTax = additionalTaxOn ti \<rparr>)"

section \<open>Dashboard totals (Dashboard, the \<open>stats\<close> memo)\<close>

text \<open>
  \<open>isDeductibleExpense\<close> compares the category with \<open>HMRCCategory.PERSONAL_000\<close>, which is
  \<open>undefined\<close>.
\<close>

definition isDeductibleExpense :: "Transaction \<Rightarrow> bool" where
  "isDeductibleExpense t = (amount t < 0 \<and> category t \<noteq> PERSONAL_000)"

definition dashboardExpenses :: "Transaction list \<Rightarrow> TaxYear \<Rightarrow> real" where
  "dashboardExpenses transactions y =
     foldl (\<lambda>acc t. acc + \<bar>amount t\<bar>) 0
       (filter isDeductibleExpense (filter (\<lambda>t. isDateInTaxYear (date t) y) transactions))"

section \<open>Builtins: \<open>btoa\<close> and number rendering\<close>

text \<open>
  \<open>btoa\<close> encodes a string of code units below 256 in base 64 and throws
  \<open>InvalidCharacterError\<close> on any other string.
\<close>

text \<open>The alphabet \<open>A-Z a-z 0-9 + /\<close>, by code unit.\<close>

definition b64 :: "nat \<Rightarrow> nat" where
  "b64 n =
     (if n < 26 then 65 + n
      else if n < 52 then 97 + (n - 26)
      else if n < 62 then 48 + (n - 52)
      else if n = 62 then 43 else 47)"

fun encodeGroups :: "nat list \<Rightarrow> jsstring" where
  "encodeGroups (a # b # c # rest) =
     b64 (a div 4) # b64 ((a mod 4) * 16 + b div 16) # b64 ((b mod 16) * 4 + c div 64)
       # b64 (c mod 64) # encodeGroups rest"
| "encodeGroups [a, b] =
     [b64 (a div 4), b64 ((a mod 4) * 16 + b div 16), b64 ((b mod 16) * 4), 61]"
| "encodeGroups [a] = [b64 (a div 4), b64 ((a mod 4) * 16), 61, 61]"
| "encodeGroups [] = []"

definition btoa :: "jsstring \<Rightarrow> jsstring option" where
  "btoa s = (if list_all (\<lambda>c. c < 256) s then Some (encodeGroups s) else None)"

text \<open>
  A number inside a template literal. An integral value below \<open>10^21\<close> in magnitude is
  rendered as its decimal digits; the rendering of every other value (the shortest
  round-trip decimal of the double) is left to the parameter \<open>fracStr\<close>.
\<close>

definition showInt :: "int \<Rightarrow> jsstring" where
  "showInt i = (if i < 0 then 45 # showNat (nat (- i)) else showNat (nat i))"

definition numToString :: "(real \<Rightarrow> jsstring) \<Rightarrow> real \<Rightarrow> jsstring" where
  "numToString fracStr x =
     (if x = of_int \<lfloor>x\<rfloor> \<and> \<bar>x\<bar> < 10 ^ 21 then showInt \<lfloor>x\<rfloor> else fracStr x)"

section \<open>Import and manual entry (TransactionManager)\<close>

datatype jserror = InvalidCharacterError

record ImportRow =
  rdate :: jsstring
  rdescription :: jsstring
  ramount :: real

text \<open>The typed answer of \<open>categorizeTransaction\<close>, as the import code reads it.\<close>

record AiResult =
  aiCategory :: jsvalue
  aiPropertyId :: "jsstring option"
  aiConfidence :: real

definition deterministicId :: "(real \<Rightarrow> jsstring) \<Rightarrow> ImportRow \<Rightarrow> jsstring option" where
  "deterministicId fracStr item =
     map_option (take 16)
       (btoa (rdate item @ js ''-'' @ rdescription item @ js ''-''
              @ numToString fracStr (ramount item)))"

definition assignedPropertyId :: "Property list \<Rightarrow> AiResult \<Rightarrow> jsstring" where
  "assignedPropertyId properties aiResult =
     (case aiPropertyId aiResult of
        Some p \<Rightarrow>
          if p \<noteq> [] \<and> list_ex (\<lambda>q. pid q = p) properties then p
          else (case properties of [] \<Rightarrow> [] | q # _ \<Rightarrow> pid q)
      | None \<Rightarrow> (case properties of [] \<Rightarrow> [] | q # _ \<Rightarrow> pid q))"

text \<open>
  One callback of \<open>dataItems.map\<close>: \<open>Inl\<close> when \<open>btoa\<close> throws (the promise rejects),
  \<open>Inr None\<close> for a skipped duplicate, \<open>Inr (Some t)\<close> for a new transaction.
\<close>

definition importOne ::
  "(real \<Rightarrow> jsstring) \<Rightarrow> (ImportRow \<Rightarrow> AiResult) \<Rightarrow> Property list \<Rightarrow> jsstring list
     \<Rightarrow> ImportRow \<Rightarrow> jserror + Transaction option" where
  "importOne fracStr categorize properties existingIds item =
     (case deterministicId fracStr item of
        None \<Rightarrow> Inl InvalidCharacterError
      | Some k \<Rightarrow>
          if k \<in> set existingIds then Inr None
          else
            (let aiResult = categorize item
             in Inr (Some \<lparr> tid = k, date = rdate item, description = rdescription item,
                      amount = ramount item,
                      propertyId = assignedPropertyId properties aiResult,
                      category = aiCategory aiResult, status = pending,
                      source = bank_upload, matchedInvoiceId = None, tag = None \<rparr>)))"

fun collect :: "(jserror + Transaction option) list \<Rightarrow> jserror + Transaction option list" where
  "collect [] = Inr []"
| "collect (Inl e # rs) = Inl e"
| "collect (Inr v # rs) = (case collect rs of Inl e \<Rightarrow> Inl e | Inr vs \<Rightarrow> Inr (v # vs))"

fun somes :: "'a option list \<Rightarrow> 'a list" where
  "somes [] = []"
| "somes (None # xs) = somes xs"
| "somes (Some x # xs) = x # somes xs"

text \<open>
  \<open>processImportedData\<close>: the new transaction list with the added and skipped counts, or the
  error with which \<open>Promise.all\<close> rejects (the stored list is then left as it was).
\<close>

definition processImportedData ::
  "(real \<Rightarrow> jsstring) \<Rightarrow> (ImportRow \<Rightarrow> AiResult) \<Rightarrow> Property list \<Rightarrow> Transaction list
     \<Rightarrow> ImportRow list \<Rightarrow> jserror + (Transaction list \<times> nat \<times> nat)" where
  "processImportedData fracStr categorize properties transactions dataItems =
     (let existingIds = map tid transactions
      in case collect (map (importOne fracStr categorize properties existingIds) dataItems) of
           Inl e \<Rightarrow> Inl e
         | Inr outcomes \<Rightarrow>
             (let results = somes outcomes;
                  addedCount = length results;
                  skippedCount = length (filter (\<lambda>r. r = None) outcomes)
              in Inr (if results \<noteq> [] then transactions @ results else transactions,
                      addedCount, skippedCount)))"

record ManualForm =
  manualDate :: jsstring
  manualDesc :: jsstring
  manualAmount :: jsstring
  manualPropId :: jsstring
  manualCat :: jsvalue
  manualTag :: "OwnerTag option"

definition manualId :: "(real \<Rightarrow> jsstring) \<Rightarrow> ManualForm \<Rightarrow> real \<Rightarrow> nat \<Rightarrow> jsstring option" where
  "manualId fracStr form amt now =
     map_option (take 16)
       (btoa (js ''manual-'' @ manualDate form @ js ''-'' @ manualDesc form @ js ''-''
              @ numToString fracStr amt @ js ''-'' @ showNat now))"

text \<open>
  \<open>handleManualAdd\<close>. \<open>parseFloat\<close> is a parameter (\<open>None\<close> is NaN) and \<open>now\<close> is the value of
  \<open>Date.now()\<close>. An exception of \<open>btoa\<close> leaves the handler before any state change.
\<close>

definition handleManualAdd ::
  "(jsstring \<Rightarrow> real option) \<Rightarrow> (real \<Rightarrow> jsstring) \<Rightarrow> nat \<Rightarrow> ManualForm \<Rightarrow> Transaction list
     \<Rightarrow> jserror + Transaction list" where
  "handleManualAdd parseFloat fracStr now form transactions =
     (case parseFloat (manualAmount form) of
        None \<Rightarrow> Inr transactions
      | Some amt \<Rightarrow>
          if manualDesc form = [] then Inr transactions
          else
            (case manualId fracStr form amt now of
               None \<Rightarrow> Inl InvalidCharacterError
             | Some k \<Rightarrow>
                 Inr (transactions @
                   [\<lparr> tid = k, date = manualDate form, description = manualDesc form,
                      amount = amt, propertyId = manualPropId form,
                      category = manualCat form, status = reconciled, source = manual,
                      matchedInvoiceId = None, tag = manualTag form \<rparr>])))"

section \<open>Builtin: \<open>new Date(s).getTime()\<close>\<close>

text \<open>
  A date-only string \<open>YYYY-MM-DD\<close> naming a calendar day is parsed as UTC midnight of that
  day, in milliseconds since the epoch. What the engine makes of any other string is left
  to the parameter \<open>parseOther\<close> (\<open>None\<close> is NaN).
\<close>

definition isDigit :: "nat \<Rightarrow> bool" where
  "isDigit c = (48 \<le> c \<and> c \<le> 57)"

definition digitsVal :: "nat list \<Rightarrow> nat" where
  "digitsVal cs = foldl (\<lambda>a c. 10 * a + (c - 48)) 0 cs"

definition isLeap :: "nat \<Rightarrow> bool" where
  "isLeap y = (if y mod 400 = 0 then True else if y mod 100 = 0 then False else y mod 4 = 0)"

definition daysInMonth :: "nat \<Rightarrow> nat \<Rightarrow> nat" where
  "daysInMonth y m =
     (if m = 2 then (if isLeap y then 29 else 28)
      else if m = 4 \<or> m = 6 \<or> m = 9 \<or> m = 11 then 30 else 31)"

definition daysFromCivil :: "int \<Rightarrow> int \<Rightarrow> int \<Rightarrow> int" where
  "daysFromCivil y m d =
     (let y' = (if m \<le> 2 then y - 1 else y);
          era = y' div 400;
          yoe = y' - era * 400;
          doy = (153 * (if m > 2 then m - 3 else m + 9) + 2) div 5 + d - 1;
          doe = yoe * 365 + yoe div 4 - yoe div 100 + doy
      in era * 146097 + doe - 719468)"

fun isoDateOnly :: "jsstring \<Rightarrow> (nat \<times> nat \<times> nat) option" where
  "isoDateOnly [y1, y2, y3, y4, h1, m1, m2, h2, d1, d2] =
     (if list_all isDigit [y1, y2, y3, y4, m1, m2, d1, d2] \<and> h1 = 45 \<and> h2 = 45
      then Some (digitsVal [y1, y2, y3, y4], digitsVal [m1, m2], digitsVal [d1, d2])
      else None)"
| "isoDateOnly s = None"

definition getTime :: "(jsstring \<Rightarrow> int option) \<Rightarrow> jsstring \<Rightarrow> int option" where
  "getTime parseOther s =
     (case isoDateOnly s of
        Some (y, m, d) \<Rightarrow>
          if 1 \<le> m \<and> m \<le> 12 \<and> 1 \<le> d \<and> d \<le> daysInMonth y m
          then Some (daysFromCivil (int y) (int m) (int d) * 86400000)
          else parseOther s
      | None \<Rightarrow> parseOther s)"

section \<open>Builtin: \<open>Array.prototype.sort\<close> with a comparator\<close>

text \<open>
  With a consistent comparator the result is the stable sort: an element goes before
  another when the comparator is not positive, and elements that compare equal keep their
  order. With an inconsistent comparator the order is whatever the engine produces; it
  is a parameter where the sort is used.
\<close>

fun insertBy :: "('a \<Rightarrow> 'a \<Rightarrow> real) \<Rightarrow> 'a \<Rightarrow> 'a list \<Rightarrow> 'a list" where
  "insertBy cmp x [] = [x]"
| "insertBy cmp x (y # ys) = (if cmp x y \<le> 0 then x # y # ys else y # insertBy cmp x ys)"

definition sortBy :: "('a \<Rightarrow> 'a \<Rightarrow> real) \<Rightarrow> 'a list \<Rightarrow> 'a list" where
  "sortBy cmp xs = foldr (insertBy cmp) xs []"

section \<open>Receipts and reconciliation (InvoiceManager)\<close>

definition truthyStr :: "jsstring option \<Rightarrow> bool" where
  "truthyStr v = (case v of None \<Rightarrow> False | Some s \<Rightarrow> s \<noteq> [])"

text \<open>
  The comparator \<open>(a, b) => new Date(b.date).getTime() - new Date(a.date).getTime()\<close>. It
  is NaN (\<open>None\<close>) when one of the dates does not parse.
\<close>

definition byDateDesc ::
  "(jsstring \<Rightarrow> int option) \<Rightarrow> Transaction \<Rightarrow> Transaction \<Rightarrow> real option" where
  "byDateDesc parseOther a b =
     (case (getTime parseOther (date b), getTime parseOther (date a)) of
        (Some tb, Some ta) \<Rightarrow> Some (real_of_int (tb - ta))
      | _ \<Rightarrow> None)"

text \<open>
  \<open>xs.sort(byDateDesc)\<close>. When every date of the list parses the comparator is a
  difference of keys, hence consistent, and the list is sorted stably by date, latest
  first. Otherwise the list is left in the engine's order \<open>engineOrder xs\<close>.
\<close>

definition sortByDateDesc ::
  "(jsstring \<Rightarrow> int option) \<Rightarrow> (Transaction list \<Rightarrow> Transaction list) \<Rightarrow> Transaction list
     \<Rightarrow> Transaction list" where
  "sortByDateDesc parseOther engineOrder xs =
     (if list_all (\<lambda>t. getTime parseOther (date t) \<noteq> None) xs
      then sortBy (\<lambda>a b. case byDateDesc parseOther a b of Some d \<Rightarrow> d | None \<Rightarrow> 0) xs
      else engineOrder xs)"

text \<open>
  The receipt hub's expense list. \<open>HMRCCategory.PERSONAL_000\<close> is \<open>undefined\<close>, so the
  third test only removes a row whose category is \<open>undefined\<close>.
\<close>

definition expenseTransactions ::
  "(jsstring \<Rightarrow> int option) \<Rightarrow> (Transaction list \<Rightarrow> Transaction list) \<Rightarrow> Transaction list
     \<Rightarrow> TaxYear \<Rightarrow> Transaction list" where
  "expenseTransactions parseOther engineOrder transactions y =
     sortByDateDesc parseOther engineOrder
       (filter (\<lambda>t. isDateInTaxYear (date t) y \<and> amount t < 0
                    \<and> category t \<noteq> PERSONAL_000 \<and> category t \<noteq> UNCATEGORIZED)
          transactions)"

text \<open>The callback of \<open>expenseTransactions.find\<close> in \<open>processFile\<close>.\<close>

definition isMatchFor :: "(jsstring \<Rightarrow> int option) \<Rightarrow> Invoice \<Rightarrow> Transaction \<Rightarrow> bool" where
  "isMatchFor parseOther newInvoice t =
     (if truthyStr (matchedInvoiceId t) then False
      else
        (let amountMatch = (\<bar>\<bar>amount t\<bar> - iamount newInvoice\<bar> < 0.10)
         in case (getTime parseOther (date t), getTime parseOther (idate newInvoice)) of
              (Some tDate, Some iDate) \<Rightarrow>
                (let diffTime = \<bar>tDate - iDate\<bar>;
                     diffDays = \<lceil>real_of_int diffTime / (1000 * 60 * 60 * 24)\<rceil>
                 in amountMatch \<and> diffDays \<le> 7)
            | _ \<Rightarrow> False))"

definition findMatch ::
  "(jsstring \<Rightarrow> int option) \<Rightarrow> (Transaction list \<Rightarrow> Transaction list) \<Rightarrow> TaxYear \<Rightarrow> Invoice
     \<Rightarrow> Transaction list \<Rightarrow> Transaction option" where
  "findMatch parseOther engineOrder y newInvoice transactions =
     find (isMatchFor parseOther newInvoice)
       (expenseTransactions parseOther engineOrder transactions y)"

text \<open>
  What the document-extraction collaborator returned: nothing (the call threw), or the four
  fields, each possibly missing.
\<close>

record Extracted =
  exDate :: "jsstring option"
  exVendor :: "jsstring option"
  exAmount :: "real option"
  exDescription :: "jsstring option"

datatype OcrResult = OcrFailed | OcrOk Extracted

definition orStr :: "jsstring option \<Rightarrow> jsstring \<Rightarrow> jsstring" where
  "orStr v dflt = (case v of None \<Rightarrow> dflt | Some s \<Rightarrow> if s = [] then dflt else s)"

text \<open>
  \<open>processFile\<close> on the transaction and invoice lists. \<open>newId\<close> is the value of
  \<open>Math.random().toString(36).substr(2, 9)\<close> and \<open>today\<close> the current date string.
\<close>

definition processFile ::
  "(jsstring \<Rightarrow> int option) \<Rightarrow> (Transaction list \<Rightarrow> Transaction list) \<Rightarrow> TaxYear \<Rightarrow> jsstring \<Rightarrow> jsstring \<Rightarrow> jsstring \<Rightarrow> OcrResult
     \<Rightarrow> Transaction list \<times> Invoice list \<Rightarrow> Transaction list \<times> Invoice list" where
  "processFile parseOther engineOrder y newId today base64 ocr st =
     (case st of (transactions, invoices) \<Rightarrow>
       (case ocr of
          OcrFailed \<Rightarrow>
            (transactions,
             invoices @
               [\<lparr> iid = newId, idate = today, vendor = js ''Unknown (AI Failed)'', iamount = 0,
                  idescription = js ''Manual Review Required'', istatus = unmatched,
                  base64Image = Some base64, matchedTransactionId = None \<rparr>])
        | OcrOk extractedData \<Rightarrow>
            (let newInvoice =
                   \<lparr> iid = newId, idate = orStr (exDate extractedData) today,
                     vendor = orStr (exVendor extractedData) (js ''Unknown Vendor''),
                     iamount = (case exAmount extractedData of None \<Rightarrow> 0 | Some a \<Rightarrow> a),
                     idescription =
                       orStr (exDescription extractedData) (js ''Uploaded Invoice''),
                     istatus = unmatched, base64Image = Some base64,
                     matchedTransactionId = None \<rparr>
             in case findMatch parseOther engineOrder y newInvoice transactions of
                  Some match \<Rightarrow>
                    (map (\<lambda>t. if tid t = tid match
                               then t\<lparr>matchedInvoiceId := Some (iid newInvoice),
                                      status := reconciled\<rparr>
                               else t) transactions,
                     invoices @
                       [newInvoice\<lparr>istatus := matched,
                                   matchedTransactionId := Some (tid match)\<rparr>])
                | None \<Rightarrow> (transactions, invoices @ [newInvoice]))))"

definition toggleMatch :: "jsstring \<Rightarrow> Transaction list \<Rightarrow> Transaction list" where
  "toggleMatch k transactions =
     map (\<lambda>t. if tid t \<noteq> k then t
              else t\<lparr>status := (if status t = reconciled then pending else reconciled)\<rparr>)
       transactions"

text \<open>\<open>deleteInvoice\<close>; \<open>confirmed\<close> is the answer to the confirmation dialog.\<close>

definition deleteInvoice ::
  "bool \<Rightarrow> jsstring \<Rightarrow> Transaction list \<times> Invoice list \<Rightarrow> Transaction list \<times> Invoice list" where
  "deleteInvoice confirmed k st =
     (case st of (transactions, invoices) \<Rightarrow>
       if \<not> confirmed then (transactions, invoices)
       else
         (let invoiceToDelete = find (\<lambda>invc. iid invc = k) invoices;
              transactions' =
                (case invoiceToDelete of
                   None \<Rightarrow> transactions
                 | Some invc \<Rightarrow>
                     if truthyStr (matchedTransactionId invc)
                     then map (\<lambda>t. if Some (tid t) = matchedTransactionId invc
                                    then t\<lparr>matchedInvoiceId := None, status := pending\<rparr>
                                    else t) transactions
                     else transactions)
          in (transactions', filter (\<lambda>invc. iid invc \<noteq> k) invoices)))"

section \<open>Deleting transactions (TransactionManager)\<close>

datatype DeleteTarget = Bulk | Single jsstring | NoTarget

text \<open>
  \<open>executeDelete\<close>: the new transaction list and the new selection. The invoice list is not
  written by this operation.
\<close>

definition executeDelete ::
  "DeleteTarget \<Rightarrow> jsstring list \<Rightarrow> Transaction list \<Rightarrow> Transaction list \<times> jsstring list" where
  "executeDelete deleteTarget selectedIds transactions =
     (case deleteTarget of
        Bulk \<Rightarrow> (filter (\<lambda>t. tid t \<notin> set selectedIds) transactions, [])
      | Single k \<Rightarrow>
          (filter (\<lambda>t. tid t \<noteq> k) transactions, filter (\<lambda>s. s \<noteq> k) selectedIds)
      | NoTarget \<Rightarrow> (transactions, selectedIds))"

section \<open>Link symmetry\<close>

text \<open>
  Every matched invoice names a transaction that is reconciled and points back at it, and
  every transaction carrying an invoice link names a matched invoice that points back at
  it.
\<close>

definition invoiceLinked :: "Transaction list \<Rightarrow> Invoice \<Rightarrow> bool" where
  "invoiceLinked transactions invc =
     (if istatus invc = matched
      then (case matchedTransactionId invc of
              None \<Rightarrow> False
            | Some k \<Rightarrow>
                list_ex (\<lambda>t. tid t = k \<and> status t = reconciled
                             \<and> matchedInvoiceId t = Some (iid invc)) transactions)
      else True)"

definition transactionLinked :: "Invoice list \<Rightarrow> Transaction \<Rightarrow> bool" where
  "transactionLinked invoices t =
     (case matchedInvoiceId t of
        None \<Rightarrow> True
      | Some k \<Rightarrow>
          list_ex (\<lambda>invc. iid invc = k \<and> istatus invc = matched
                         \<and> matchedTransactionId invc = Some (tid t)) invoices)"

definition linkSymmetric :: "Transaction list \<times> Invoice list \<Rightarrow> bool" where
  "linkSymmetric st =
     (case st of (transactions, invoices) \<Rightarrow>
        list_all (invoiceLinked transactions) invoices
        \<and> list_all (transactionLinked invoices) transactions)"

section \<open>Categorization (geminiService)\<close>

text \<open>
  Reading one of the properties \<open>category\<close>, \<open>propertyId\<close>, \<open>confidence\<close>, \<open>reasoning\<close>:
  \<open>None\<close> is the TypeError on \<open>null\<close> and \<open>undefined\<close>; numbers, strings, booleans and
  arrays have no such property.
\<close>

definition getProp :: "jsvalue \<Rightarrow> jsstring \<Rightarrow> jsvalue option" where
  "getProp v k =
     (case v of
        JUndefined \<Rightarrow> None
      | JNull \<Rightarrow> None
      | JObj kvs \<Rightarrow> (case map_of kvs k of None \<Rightarrow> Some JUndefined | Some x \<Rightarrow> Some x)
      | _ \<Rightarrow> Some JUndefined)"

definition orElse :: "jsvalue \<Rightarrow> jsvalue \<Rightarrow> jsvalue" where
  "orElse v dflt = (if truthy v then v else dflt)"

text \<open>
  Global replacement of a fence followed by an optional newline, as
  \<open>text.replace(/```json\n?/g, '')\<close> does; the fence is not empty.
\<close>

definition dropNewline :: "jsstring \<Rightarrow> jsstring" where
  "dropNewline r = (case r of [] \<Rightarrow> [] | c # cs \<Rightarrow> if c = 10 then cs else c # cs)"

function stripFence :: "jsstring \<Rightarrow> jsstring \<Rightarrow> jsstring" where
  "stripFence fence s =
     (if s = [] \<or> fence = [] then s
      else if take (length fence) s = fence
           then stripFence fence (dropNewline (drop (length fence) s))
           else hd s # stripFence fence (tl s))"
  by pat_completeness auto
termination
proof (relation "measure (\<lambda>(fence, s). length s)")
  show "wf (measure (\<lambda>(fence, s). length s))" by simp
next
  fix fence s :: jsstring
  assume "\<not> (s = [] \<or> fence = [])" "take (length fence) s = fence"
  then have a: "length (drop (length fence) s) < length s" by (cases fence) auto
  have "length (dropNewline r) \<le> length r" for r
    by (cases r) (auto simp: dropNewline_def)
  then have "length (dropNewline (drop (length fence) s)) \<le> length (drop (length fence) s)" .
  with a have "length (dropNewline (drop (length fence) s)) < length s"
    by linarith
  then show "((fence, dropNewline (drop (length fence) s)), fence, s)
      \<in> measure (\<lambda>(fence, s). length s)"
    by simp
next
  fix fence s :: jsstring
  assume "\<not> (s = [] \<or> fence = [])"
  then show "((fence, tl s), fence, s) \<in> measure (\<lambda>(fence, s). length s)"
    by (cases s) auto
qed

declare stripFence.simps [simp del]

definition isWhiteSpace :: "nat \<Rightarrow> bool" where
  "isWhiteSpace c =
     (c \<in> set [9, 10, 11, 12, 13, 32, 160, 5760, 8232, 8233, 8239, 8287, 12288, 65279]
      \<or> (8192 \<le> c \<and> c \<le> 8202))"

definition trim :: "jsstring \<Rightarrow> jsstring" where
  "trim s = rev (dropWhile isWhiteSpace (rev (dropWhile isWhiteSpace s)))"

text \<open>
  \<open>cleaned.match(/\{[\s\S]*\}|\[[\s\S]*\]/)\<close>: from the leftmost brace that has a closing
  brace after it, or bracket that has a closing bracket after it, through the last such
  closing character.
\<close>

definition upToLast :: "nat \<Rightarrow> jsstring \<Rightarrow> jsstring" where
  "upToLast c cs = rev (dropWhile (\<lambda>x. x \<noteq> c) (rev cs))"

fun matchJson :: "jsstring \<Rightarrow> jsstring option" where
  "matchJson [] = None"
| "matchJson (c # cs) =
     (if c = 123 \<and> 125 \<in> set cs then Some (c # upToLast 125 cs)
      else if c = 91 \<and> 93 \<in> set cs then Some (c # upToLast 93 cs)
      else matchJson cs)"

definition cleanJson :: "jsstring \<Rightarrow> jsstring" where
  "cleanJson text =
     (let cleaned = trim (stripFence [96, 96, 96] (stripFence ([96, 96, 96] @ js ''json'') text))
      in case matchJson cleaned of Some j \<Rightarrow> j | None \<Rightarrow> cleaned)"

text \<open>\<open>robustJsonParse\<close>; \<open>jsonParse\<close> is \<open>JSON.parse\<close>, \<open>None\<close> when it throws.\<close>

definition robustJsonParse :: "(jsstring \<Rightarrow> jsvalue option) \<Rightarrow> jsstring \<Rightarrow> jsvalue" where
  "robustJsonParse jsonParse text =
     (case jsonParse (cleanJson text) of Some v \<Rightarrow> v | None \<Rightarrow> JObj [])"

text \<open>Membership in the enumeration: the value is the string of one of its members.\<close>

definition isKnownCategory :: "jsvalue \<Rightarrow> bool" where
  "isKnownCategory v = list_ex (\<lambda>e. v = JStr (snd e)) HMRCCategory"

text \<open>
  The answer of the classification collaborator: the call or \<open>response.text()\<close> threw, or
  a text came back. The prompt is not modelled; the answer is unconstrained.
\<close>

datatype Reply = Threw | Text jsstring

text \<open>The object \<open>categorizeTransaction\<close> resolves to, with the values it holds at run time.\<close>

record CategorizeResult =
  crCategory :: jsvalue
  crPropertyId :: jsvalue
  crConfidence :: jsvalue
  crReasoning :: jsvalue

definition fallbackResult :: CategorizeResult where
  "fallbackResult =
     \<lparr> crCategory = UNCATEGORIZED, crPropertyId = JUndefined,
       crConfidence = JNum 0, crReasoning = JUndefined \<rparr>"

definition categorizeTransaction ::
  "(jsstring \<Rightarrow> jsvalue option) \<Rightarrow> Reply \<Rightarrow> CategorizeResult" where
  "categorizeTransaction jsonParse reply =
     (case reply of
        Threw \<Rightarrow> fallbackResult
      | Text text \<Rightarrow>
          (let parsed = robustJsonParse jsonParse text
           in case (getProp parsed (js ''category''), getProp parsed (js ''propertyId''),
                    getProp parsed (js ''confidence''), getProp parsed (js ''reasoning'')) of
                (Some c, Some p, Some k, Some r) \<Rightarrow>
                  \<lparr> crCategory = orElse c (UNCATEGORIZED),
                    crPropertyId = orElse p JUndefined,
                    crConfidence = orElse k (JNum 0.5),
                    crReasoning = r \<rparr>
              | _ \<Rightarrow> fallbackResult))"

section \<open>The properties as the claims word them\<close>

text \<open>
  The deductible-expense sum as the specification words it: the negative in-period
  transactions whose category is neither the finance-cost one, nor the one that tags
  personal spending, nor the uncategorized one. The enumeration has no member for personal
  spending; the value that tags it is the argument \<open>personal\<close>.
\<close>

definition specDeductibleSum :: "jsvalue \<Rightarrow> Transaction list \<Rightarrow> TaxYear \<Rightarrow> real" where
  "specDeductibleSum personal transactions y =
     sum_list (map (\<lambda>t. \<bar>amount t\<bar>)
       (filter (\<lambda>t. isDateInTaxYear (date t) y \<and> amount t < 0
                    \<and> category t \<noteq> MORT_INT_701 \<and> category t \<noteq> personal
                    \<and> category t \<noteq> UNCATEGORIZED) transactions))"

text \<open>
  The candidates of a receipt: a row that the receipt hub's expense list keeps (in the
  period, negative amount, category neither \<open>HMRCCategory.PERSONAL_000\<close> nor uncategorized),
  that is unlinked, whose absolute amount is within 0.10 of the receipt's and whose date is
  at most seven days from the receipt's.
\<close>

definition isCandidate ::
  "(jsstring \<Rightarrow> int option) \<Rightarrow> TaxYear \<Rightarrow> Invoice \<Rightarrow> Transaction \<Rightarrow> bool" where
  "isCandidate parseOther y invc t =
     (isDateInTaxYear (date t) y \<and> amount t < 0
      \<and> category t \<noteq> PERSONAL_000 \<and> category t \<noteq> UNCATEGORIZED
      \<and> \<not> truthyStr (matchedInvoiceId t)
      \<and> \<bar>\<bar>amount t\<bar> - iamount invc\<bar> < 0.10
      \<and> (case (getTime parseOther (date t), getTime parseOther (idate invc)) of
            (Some a, Some b) \<Rightarrow> \<bar>a - b\<bar> \<le> 7 * 86400000
          | _ \<Rightarrow> False))"

text \<open>
  The category the specification asks for: the returned code when it is a member of the
  enumeration, uncategorized otherwise.
\<close>

definition specCategory :: "jsvalue \<Rightarrow> jsvalue" where
  "specCategory v = (if isKnownCategory v then v else UNCATEGORIZED)"

section \<open>Sample data\<close>

text \<open>An imported, unlinked transaction with the given id, date, amount and category.\<close>

definition mkTx :: "string \<Rightarrow> string \<Rightarrow> real \<Rightarrow> jsvalue \<Rightarrow> Transaction" where
  "mkTx i d a c =
     \<lparr> tid = js i, date = js d, description = js ''row'', amount = a, propertyId = js ''p1'',
       category = c, status = pending, source = bank_upload, matchedInvoiceId = None,
       tag = None \<rparr>"

definition scenarioLedger :: "Transaction list" where
  "scenarioLedger =
     [mkTx ''t1'' ''2024-06-01'' 12000 RENTAL_INC_001,
      mkTx ''t2'' ''2024-07-15'' (- 2000) REPAIRS_101,
      mkTx ''t3'' ''2024-08-01'' (- 5000) MORT_INT_701,
      mkTx ''t4'' ''2023-01-01'' (- 999) REPAIRS_101]"

definition mixedLedger :: "Transaction list" where
  "mixedLedger = scenarioLedger @ [mkTx ''t5'' ''2024-09-09'' (- 100) UNCATEGORIZED]"

definition uncategorizedOnly :: "Transaction list" where
  "uncategorizedOnly = [mkTx ''u1'' ''2024-06-01'' (- 100) UNCATEGORIZED]"

text \<open>An expense tagged with the string \<open>PERSONAL_000\<close>.\<close>

definition personalOnly :: "Transaction list" where
  "personalOnly = [mkTx ''p1'' ''2024-06-01'' (- 100) (JStr (js ''PERSONAL_000''))]"

text \<open>
  Two imported rows of one day that differ in description and amount, and two manual
  entries of one year.
\<close>

definition rowA :: ImportRow where
  "rowA = \<lparr> rdate = js ''2024-05-01'', rdescription = js ''Rent flat A'', ramount = 850 \<rparr>"

definition rowB :: ImportRow where
  "rowB = \<lparr> rdate = js ''2024-05-01'', rdescription = js ''Refund of deposit'', ramount = -20 \<rparr>"

definition formA :: ManualForm where
  "formA = \<lparr> manualDate = js ''2024-05-01'', manualDesc = js ''Plumber'', manualAmount = js ''-120'',
       manualPropId = js ''p1'', manualCat = REPAIRS_101, manualTag = None \<rparr>"

definition formB :: ManualForm where
  "formB = \<lparr> manualDate = js ''2024-11-30'', manualDesc = js ''Rent received'', manualAmount = js ''850'',
       manualPropId = js ''p1'', manualCat = RENTAL_INC_001, manualTag = Some TagD \<rparr>"

text \<open>
  A receipt of 45.00 dated 10 June, an expense of 45.05 five days later and one ten days
  later; the extraction that yields the receipt, and the store after the receipt has been
  matched with the first expense.
\<close>

definition scenarioInvoice :: Invoice where
  "scenarioInvoice =
     \<lparr> iid = js ''inv1'', idate = js ''2024-06-10'', vendor = js ''Screwfix'', iamount = 45,
       idescription = js ''Tap washers'', istatus = unmatched, base64Image = None,
       matchedTransactionId = None \<rparr>"

definition txFiveDays :: Transaction where
  "txFiveDays = mkTx ''t5d'' ''2024-06-15'' (- 45.05) REPAIRS_101"

definition txTenDays :: Transaction where
  "txTenDays = mkTx ''t10d'' ''2024-06-20'' (- 45.05) REPAIRS_101"

text \<open>
  The same expense with a date that is in the period as a string and is no calendar day,
  and the same expense tagged with the string \<open>PERSONAL_000\<close>.
\<close>

definition txNoDate :: Transaction where
  "txNoDate = mkTx ''tnd'' ''2024-06-1x'' (- 45.05) REPAIRS_101"

definition txPersonal :: Transaction where
  "txPersonal = mkTx ''tp'' ''2024-06-15'' (- 45.05) (JStr (js ''PERSONAL_000''))"

definition scenarioExtract :: Extracted where
  "scenarioExtract =
     \<lparr> exDate = Some (js ''2024-06-10''), exVendor = Some (js ''Screwfix''),
       exAmount = Some 45, exDescription = Some (js ''Tap washers'') \<rparr>"

definition linkedStore :: "Transaction list \<times> Invoice list" where
  "linkedStore =
     ([txFiveDays\<lparr>matchedInvoiceId := Some (js ''inv1''), status := reconciled\<rparr>],
      [scenarioInvoice\<lparr>istatus := matched, base64Image := Some (js ''data''),
                       matchedTransactionId := Some (js ''t5d'')\<rparr>])"

text \<open>
  \<open>parseFloat\<close> on the amounts typed into the two sample forms, and a classifier answer
  for the sample rows.
\<close>

definition sampleParseFloat :: "jsstring \<Rightarrow> real option" where
  "sampleParseFloat s =
     (if s = js ''-120'' then Some (- 120) else if s = js ''850'' then Some 850 else None)"

definition sampleCategorize :: "ImportRow \<Rightarrow> AiResult" where
  "sampleCategorize item =
     \<lparr> aiCategory = (if ramount item > 0 then RENTAL_INC_001 else UNCATEGORIZED),
       aiPropertyId = None, aiConfidence = 0.5 \<rparr>"

text \<open>
  Sample answers, and \<open>JSON.parse\<close> on them: the first is the text of an object whose
  category is not a code of the enumeration, the second is prose without any payload.
\<close>

definition foreignReply :: jsstring where
  "foreignReply = js ''{'' @ [34] @ js ''category'' @ [34] @ js '':'' @ [34] @ js ''FOO_999''
     @ [34] @ js ''}''"

definition proseReply :: jsstring where
  "proseReply = js ''I cannot classify this.''"

definition sampleJsonParse :: "jsstring \<Rightarrow> jsvalue option" where
  "sampleJsonParse s =
     (if s = foreignReply then Some (JObj [(js ''category'', JStr (js ''FOO_999''))])
      else None)"

section \<open>The members of the enumeration\<close>

lemma js_eq_iff: "(js a = js b) = (a = b)"
proof -
  have "inj (of_char :: char \<Rightarrow> nat)" by (rule injI) simp
  then show ?thesis by (simp add: js_def inj_map_eq_map)
qed

lemma enum_values:
  "RENTAL_INC_001 = JStr (js ''RENTAL_INC_001'')"
  "REPAIRS_101 = JStr (js ''REPAIRS_101'')"
  "MORT_INT_701 = JStr (js ''MORT_INT_701'')"
  "UNCATEGORIZED = JStr (js ''UNCATEGORIZED'')"
  "PERSONAL_000 = JUndefined"
  by (simp_all add: RENTAL_INC_001_def REPAIRS_101_def MORT_INT_701_def UNCATEGORIZED_def
      PERSONAL_000_def enumMember_def HMRCCategory_def)

section \<open>The tax engine: arithmetic facts\<close>

lemma foldl_abs_nonneg: "0 \<le> a \<Longrightarrow> 0 \<le> foldl (\<lambda>a b. a + \<bar>amount b\<bar>) (a::real) xs"
  by (induction xs arbitrary: a) auto

lemma sumFinanceCosts_nonneg: "0 \<le> sumFinanceCosts yts"
  by (simp add: sumFinanceCosts_def foldl_abs_nonneg)

lemma taxBeforeReliefOn_nonneg: "0 \<le> ti \<Longrightarrow> 0 \<le> taxBeforeReliefOn ti"
  by (auto simp: taxBeforeReliefOn_def basicTaxOn_def higherTaxOn_def additionalTaxOn_def
      basicBand_def higherBand_def Let_def min_def)

lemma taxBeforeReliefOn_closed:
  "taxBeforeReliefOn ti =
     (if ti \<le> 37700 then ti / 5
      else if ti \<le> 112570 then 7540 + (ti - 37700) * 2 / 5
      else 37488 + (ti - 112570) * 9 / 20)"
  by (simp add: taxBeforeReliefOn_def basicTaxOn_def higherTaxOn_def additionalTaxOn_def
      basicBand_def higherBand_def Let_def min_def)

lemma taxBeforeReliefOn_mono: "a \<le> b \<Longrightarrow> taxBeforeReliefOn a \<le> taxBeforeReliefOn b"
  unfolding taxBeforeReliefOn_closed by argo

lemma allowanceFor_antimono: "x \<le> y \<Longrightarrow> allowanceFor y \<le> allowanceFor x"
  unfolding allowanceFor_def max_def by (simp split: if_splits)

lemma taxableIncomeFor_mono: "x \<le> y \<Longrightarrow> taxableIncomeFor x \<le> taxableIncomeFor y"
  using allowanceFor_antimono [of x y] unfolding taxableIncomeFor_def by linarith

lemma taxableIncomeFor_nonneg: "0 \<le> taxableIncomeFor x"
  by (simp add: taxableIncomeFor_def)

lemma isDateInTaxYear_samples:
  "isDateInTaxYear (js ''2024-06-01'') TY2024_2025"
  "isDateInTaxYear (js ''2024-07-15'') TY2024_2025"
  "isDateInTaxYear (js ''2024-08-01'') TY2024_2025"
  "\<not> isDateInTaxYear (js ''2023-01-01'') TY2024_2025"
  by (simp_all add: isDateInTaxYear_def taxYearStart_def taxYearEnd_def showNat.simps
      digitChar_def js_def)

lemma scenarioLedger_sums:
  "sumRentalIncome (yearTransactions scenarioLedger TY2024_2025) = 12000"
  "sumOtherExpenses (yearTransactions scenarioLedger TY2024_2025) = 2000"
  "sumFinanceCosts (yearTransactions scenarioLedger TY2024_2025) = 5000"
  by (simp_all add: scenarioLedger_def yearTransactions_def mkTx_def isDateInTaxYear_samples
      sumRentalIncome_def sumOtherExpenses_def sumFinanceCosts_def enum_values js_eq_iff)

lemma estimate_fields:
  "rentalIncome (estimate ts oi y) = sumRentalIncome (yearTransactions ts y)"
  "otherExpenses (estimate ts oi y) = sumOtherExpenses (yearTransactions ts y)"
  "financeCosts (estimate ts oi y) = sumFinanceCosts (yearTransactions ts y)"
  "taxableProfit (estimate ts oi y) = max 0 (rentalIncome (estimate ts oi y) - otherExpenses (estimate ts oi y))"
  "totalIncome (estimate ts oi y) = taxableProfit (estimate ts oi y) + oi"
  "allowance (estimate ts oi y) = allowanceFor (totalIncome (estimate ts oi y))"
  "taxableIncome (estimate ts oi y) = taxableIncomeFor (totalIncome (estimate ts oi y))"
  "estimatedTaxBeforeRelief (estimate ts oi y) = taxBeforeReliefOn (taxableIncome (estimate ts oi y))"
  "financeCostRelief (estimate ts oi y) =
     min (financeCosts (estimate ts oi y) * 0.20) (estimatedTaxBeforeRelief (estimate ts oi y))"
  "finalEstimatedTax (estimate ts oi y) =
     max 0 (estimatedTaxBeforeRelief (estimate ts oi y) - financeCostRelief (estimate ts oi y))"
  unfolding estimate_def Let_def taxableIncomeFor_def
  by (simp_all only: TaxEstimate.select_convs)

text \<open>
  Claim C9. For every ledger, supplemental income and period, the relief is
  \<open>min (financeCosts * 0.20) estimatedTaxBeforeRelief\<close>, it lies between zero and the gross
  tax before relief, and the final tax is the gross tax minus the relief and is never
  negative.
\<close>

theorem relief_bounds:
  "0 \<le> financeCostRelief (estimate ts oi y)
   \<and> financeCostRelief (estimate ts oi y) \<le> estimatedTaxBeforeRelief (estimate ts oi y)
   \<and> financeCostRelief (estimate ts oi y) =
       min (financeCosts (estimate ts oi y) * 0.20) (estimatedTaxBeforeRelief (estimate ts oi y))
   \<and> finalEstimatedTax (estimate ts oi y) =
       estimatedTaxBeforeRelief (estimate ts oi y) - financeCostRelief (estimate ts oi y)
   \<and> 0 \<le> finalEstimatedTax (estimate ts oi y)"
proof -
  let ?e = "estimate ts oi y"
  have fc: "0 \<le> financeCosts ?e"
    by (simp add: estimate_fields(3) sumFinanceCosts_nonneg)
  have tbr: "0 \<le> estimatedTaxBeforeRelief ?e"
    by (simp add: estimate_fields(8) estimate_fields(7) taxBeforeReliefOn_nonneg
        taxableIncomeFor_nonneg)
  have rel: "financeCostRelief ?e = min (financeCosts ?e * 0.20) (estimatedTaxBeforeRelief ?e)"
    by (rule estimate_fields(9))
  have fin: "finalEstimatedTax ?e = max 0 (estimatedTaxBeforeRelief ?e - financeCostRelief ?e)"
    by (rule estimate_fields(10))
  from fc tbr rel have r0: "0 \<le> financeCostRelief ?e" by simp
  from rel have r1: "financeCostRelief ?e \<le> estimatedTaxBeforeRelief ?e" by simp
  from fin r1 have f: "finalEstimatedTax ?e = estimatedTaxBeforeRelief ?e - financeCostRelief ?e"
    by simp
  from r0 r1 rel f show ?thesis by simp
qed

text \<open>
  Claim C8. Gross tax before relief is monotone in total income: whenever one estimate's
  total income is at most another's, so is its banded tax after the tapered allowance.
  Finance costs play no part in either quantity.
\<close>

theorem band_monotone:
  assumes "totalIncome (estimate ts1 oi1 y1) \<le> totalIncome (estimate ts2 oi2 y2)"
  shows "estimatedTaxBeforeRelief (estimate ts1 oi1 y1)
         \<le> estimatedTaxBeforeRelief (estimate ts2 oi2 y2)"
  using assms
  by (simp only: estimate_fields(8) estimate_fields(7) taxBeforeReliefOn_mono taxableIncomeFor_mono)

theorem band_monotone_witness:
  "totalIncome (estimate scenarioLedger 95000 TY2024_2025)
     \<le> totalIncome (estimate scenarioLedger 130000 TY2024_2025)
   \<and> estimatedTaxBeforeRelief (estimate scenarioLedger 95000 TY2024_2025)
     \<le> estimatedTaxBeforeRelief (estimate scenarioLedger 130000 TY2024_2025)
   \<and> estimatedTaxBeforeRelief (estimate scenarioLedger 95000 TY2024_2025) = 30432
   \<and> estimatedTaxBeforeRelief (estimate scenarioLedger 130000 TY2024_2025) = 49831.5"
proof -
  have t: "totalIncome (estimate scenarioLedger 95000 TY2024_2025)
           \<le> totalIncome (estimate scenarioLedger 130000 TY2024_2025)"
    by (simp add: estimate_fields scenarioLedger_sums)
  have a: "estimatedTaxBeforeRelief (estimate scenarioLedger 95000 TY2024_2025) = 30432"
    by (simp add: estimate_fields scenarioLedger_sums taxableIncomeFor_def allowanceFor_def
        taxBeforeReliefOn_closed)
  have b: "estimatedTaxBeforeRelief (estimate scenarioLedger 130000 TY2024_2025) = 49831.5"
    by (simp add: estimate_fields scenarioLedger_sums taxableIncomeFor_def allowanceFor_def
        taxBeforeReliefOn_closed)
  from t a b band_monotone [OF t] show ?thesis by simp
qed

text \<open>
  Claim C5. With gross income 12,000, other expenses 2,000, finance costs 5,000 and no
  supplemental income, the estimate has taxable profit and total income 10,000, the full
  allowance 12,570, net taxable income 0, gross tax 0, relief \<open>min 1000 0 = 0\<close> and final
  tax 0.
\<close>

theorem scenario_allowance_absorbs:
  assumes "rentalIncome (estimate ts 0 y) = 12000"
    and "otherExpenses (estimate ts 0 y) = 2000"
    and "financeCosts (estimate ts 0 y) = 5000"
  shows "taxableProfit (estimate ts 0 y) = 10000
       \<and> totalIncome (estimate ts 0 y) = 10000
       \<and> allowance (estimate ts 0 y) = 12570
       \<and> taxableIncome (estimate ts 0 y) = 0
       \<and> estimatedTaxBeforeRelief (estimate ts 0 y) = 0
       \<and> financeCostRelief (estimate ts 0 y) = min 1000 0
       \<and> financeCostRelief (estimate ts 0 y) = 0
       \<and> finalEstimatedTax (estimate ts 0 y) = 0"
proof -
  let ?e = "estimate ts 0 y"
  have tp: "taxableProfit ?e = 10000" using assms by (simp add: estimate_fields(4))
  have ti: "totalIncome ?e = 10000" using tp by (simp add: estimate_fields(5))
  have al: "allowance ?e = 12570" using ti by (simp add: estimate_fields(6) allowanceFor_def)
  have tx: "taxableIncome ?e = 0"
    using ti by (simp add: estimate_fields(7) taxableIncomeFor_def allowanceFor_def)
  have tb: "estimatedTaxBeforeRelief ?e = 0"
    using tx by (simp add: estimate_fields(8) taxBeforeReliefOn_closed)
  have re: "financeCostRelief ?e = min 1000 0"
    using tb assms(3) by (simp add: estimate_fields(9))
  have fi: "finalEstimatedTax ?e = 0" using tb re by (simp add: estimate_fields(10))
  from tp ti al tx tb re fi show ?thesis by simp
qed

theorem scenario_allowance_absorbs_witness:
  "rentalIncome (estimate scenarioLedger 0 TY2024_2025) = 12000
   \<and> otherExpenses (estimate scenarioLedger 0 TY2024_2025) = 2000
   \<and> financeCosts (estimate scenarioLedger 0 TY2024_2025) = 5000
   \<and> taxableProfit (estimate scenarioLedger 0 TY2024_2025) = 10000
   \<and> totalIncome (estimate scenarioLedger 0 TY2024_2025) = 10000
   \<and> taxableIncome (estimate scenarioLedger 0 TY2024_2025) = 0
   \<and> estimatedTaxBeforeRelief (estimate scenarioLedger 0 TY2024_2025) = 0
   \<and> financeCostRelief (estimate scenarioLedger 0 TY2024_2025) = 0
   \<and> finalEstimatedTax (estimate scenarioLedger 0 TY2024_2025) = 0"
proof -
  have h1: "rentalIncome (estimate scenarioLedger 0 TY2024_2025) = 12000"
    by (simp add: estimate_fields(1) scenarioLedger_sums)
  have h2: "otherExpenses (estimate scenarioLedger 0 TY2024_2025) = 2000"
    by (simp add: estimate_fields(2) scenarioLedger_sums)
  have h3: "financeCosts (estimate scenarioLedger 0 TY2024_2025) = 5000"
    by (simp add: estimate_fields(3) scenarioLedger_sums)
  from h1 h2 h3 scenario_allowance_absorbs [OF h1 h2 h3] show ?thesis by simp
qed

lemma foldl_abs_sum:
  "foldl (\<lambda>a b. a + \<bar>amount b\<bar>) (a::real) xs = a + sum_list (map (\<lambda>t. \<bar>amount t\<bar>) xs)"
  by (induction xs arbitrary: a) auto

lemma otherExpenses_sum:
  "otherExpenses (estimate ts oi y) =
     sum_list (map (\<lambda>t. \<bar>amount t\<bar>)
       (filter (\<lambda>t. isDateInTaxYear (date t) y \<and> amount t < 0 \<and> category t \<noteq> MORT_INT_701)
          ts))"
  by (simp add: estimate_fields(2) sumOtherExpenses_def yearTransactions_def foldl_abs_sum
      conj_commute conj_left_commute)

text \<open>
  The dashboard tests the category against \<open>HMRCCategory.PERSONAL_000\<close>, which is
  \<open>undefined\<close>: an expense tagged with the string \<open>PERSONAL_000\<close> is counted by the
  dashboard, as it is by the tax engine, which makes no such test. Both count an
  uncategorized expense.
\<close>

lemma dashboard_and_engine:
  "PERSONAL_000 = JUndefined
   \<and> dashboardExpenses personalOnly TY2024_2025 = 100
   \<and> otherExpenses (estimate personalOnly 0 TY2024_2025) = 100
   \<and> dashboardExpenses uncategorizedOnly TY2024_2025 = 100"
  by (simp add: dashboardExpenses_def isDeductibleExpense_def otherExpenses_sum
      personalOnly_def uncategorizedOnly_def mkTx_def isDateInTaxYear_samples enum_values
      js_eq_iff)

text \<open>
  Claim C1, as stated, fails: an uncategorized expense in the period contributes its
  absolute amount to the engine's other-expenses sum, which the specification's sum leaves
  out.
\<close>

theorem uncategorized_counted:
  "otherExpenses (estimate uncategorizedOnly 0 TY2024_2025) = 100
   \<and> specDeductibleSum (JStr (js ''PERSONAL_000'')) uncategorizedOnly TY2024_2025 = 0"
  by (simp add: otherExpenses_sum specDeductibleSum_def uncategorizedOnly_def mkTx_def
      isDateInTaxYear_samples enum_values js_eq_iff)

text \<open>
  Claim C1, amended. On a ledger that contains no transaction tagged as personal spending,
  the engine's other-expenses sum is the sum of the absolute amounts of exactly the
  negative-amount in-period transactions whose category is neither the finance-cost one
  nor the personal tag; uncategorized expenses are part of it. Nothing is stated for a
  ledger that contains a transaction tagged personal. The tag is any value \<open>personal\<close>.
\<close>

theorem otherExpenses_non_finance:
  assumes "list_all (\<lambda>t. category t \<noteq> personal) ts"
  shows "otherExpenses (estimate ts oi y) =
     sum_list (map (\<lambda>t. \<bar>amount t\<bar>)
       (filter (\<lambda>t. isDateInTaxYear (date t) y \<and> amount t < 0
                    \<and> category t \<noteq> MORT_INT_701 \<and> category t \<noteq> personal) ts))"
proof -
  have "filter (\<lambda>t. isDateInTaxYear (date t) y \<and> amount t < 0 \<and> category t \<noteq> MORT_INT_701) ts
      = filter (\<lambda>t. isDateInTaxYear (date t) y \<and> amount t < 0
                    \<and> category t \<noteq> MORT_INT_701 \<and> category t \<noteq> personal) ts"
    using assms by (intro filter_cong) (auto simp: list_all_iff)
  then show ?thesis by (simp only: otherExpenses_sum)
qed

theorem otherExpenses_non_finance_witness:
  "list_all (\<lambda>t. category t \<noteq> JStr (js ''PERSONAL_000'')) mixedLedger
   \<and> otherExpenses (estimate mixedLedger 0 TY2024_2025) = 2100"
proof -
  have d: "isDateInTaxYear (js ''2024-09-09'') TY2024_2025"
    by (simp add: isDateInTaxYear_def taxYearStart_def taxYearEnd_def showNat.simps
        digitChar_def js_def)
  have h: "list_all (\<lambda>t. category t \<noteq> JStr (js ''PERSONAL_000'')) mixedLedger"
    by (simp add: mixedLedger_def scenarioLedger_def mkTx_def enum_values js_eq_iff)
  have "sum_list (map (\<lambda>t. \<bar>amount t\<bar>)
       (filter (\<lambda>t. isDateInTaxYear (date t) TY2024_2025 \<and> amount t < 0
                    \<and> category t \<noteq> MORT_INT_701
                    \<and> category t \<noteq> JStr (js ''PERSONAL_000'')) mixedLedger))
     = 2100"
    by (simp add: mixedLedger_def scenarioLedger_def mkTx_def isDateInTaxYear_samples d
        enum_values js_eq_iff)
  with h otherExpenses_non_finance [OF h, of 0 TY2024_2025] show ?thesis by simp
qed

section \<open>Identities of imported and manual transactions\<close>

lemma numToString_samples:
  "numToString f 850 = js ''850''"
  "numToString f (- 20) = js ''-20''"
  "numToString f (- 120) = js ''-120''"
  by (simp_all add: numToString_def showInt_def showNat.simps digitChar_def js_def)

lemma showNat_samples:
  "showNat 1700000000000 = js ''1700000000000''"
  "showNat 1700000999999 = js ''1700000999999''"
  by (simp_all add: showNat.simps digitChar_def js_def)

lemma rowA_id: "deterministicId f rowA = Some (js ''MjAyNC0wNS0wMS1S'')"
  by (simp add: deterministicId_def rowA_def numToString_samples btoa_def js_def b64_def)

lemma rowB_id: "deterministicId f rowB = Some (js ''MjAyNC0wNS0wMS1S'')"
  by (simp add: deterministicId_def rowB_def numToString_samples btoa_def js_def b64_def)

lemma formA_id: "manualId f formA (- 120) 1700000000000 = Some (js ''bWFudWFsLTIwMjQt'')"
  by (simp add: manualId_def formA_def numToString_samples showNat_samples btoa_def js_def b64_def)

lemma formB_id: "manualId f formB 850 1700000999999 = Some (js ''bWFudWFsLTIwMjQt'')"
  by (simp add: manualId_def formB_def numToString_samples showNat_samples btoa_def js_def b64_def)

lemma rows_differ: "rowA \<noteq> rowB"
  by (simp add: rowA_def rowB_def js_def)

text \<open>
  Cutting the encoding after sixteen characters keeps the encoding of the first twelve
  code units of the text and nothing else.
\<close>

lemma encodeGroups_take:
  "3 * k \<le> length s \<Longrightarrow> take (4 * k) (encodeGroups s) = encodeGroups (take (3 * k) s)"
proof (induction k arbitrary: s)
  case 0
  then show ?case by simp
next
  case (Suc k)
  then obtain a b c rest where s: "s = a # b # c # rest"
    by (cases s; simp) (metis Suc_le_length_iff Suc_le_mono list.size(4) One_nat_def
        Suc_eq_plus1 add_Suc_right length_Cons)
  with Suc.prems have "3 * k \<le> length rest" by simp
  from Suc.IH [OF this] have ih: "take (4 * k) (encodeGroups rest) = encodeGroups (take (3 * k) rest)" .
  have n4: "4 * Suc k = Suc (Suc (Suc (Suc (4 * k))))" and n3: "3 * Suc k = Suc (Suc (Suc (3 * k)))"
    by simp_all
  show ?case unfolding s n4 n3 by (simp add: ih)
qed

lemma deterministicId_prefix:
  assumes "btoa s = Some e" "12 \<le> length s"
  shows "take 16 e = encodeGroups (take 12 s)"
proof -
  from assms(1) have "e = encodeGroups s" by (simp add: btoa_def split: if_splits)
  with encodeGroups_take [of 4 s] assms(2) show ?thesis by simp
qed

text \<open>
  Claim C3 fails on the code. Only the first sixteen characters of the encoding are kept,
  that is the first twelve code units of the encoded text. Two different imported rows of
  the same day whose descriptions start with the same letter therefore get the same
  identity, and so do two manual entries of the same year, whatever their timestamps.
\<close>

theorem identity_collisions:
  "rowA \<noteq> rowB
   \<and> deterministicId fracStr rowA = Some (js ''MjAyNC0wNS0wMS1S'')
   \<and> deterministicId fracStr rowB = Some (js ''MjAyNC0wNS0wMS1S'')
   \<and> manualId fracStr formA (- 120) 1700000000000 = Some (js ''bWFudWFsLTIwMjQt'')
   \<and> manualId fracStr formB 850 1700000999999 = Some (js ''bWFudWFsLTIwMjQt'')"
  by (simp only: rowA_id rowB_id formA_id formB_id rows_differ simp_thms)

lemma collect_Inr: "collect rs = Inr vs \<Longrightarrow> rs = map Inr vs"
proof (induction rs arbitrary: vs)
  case Nil
  then show ?case by simp
next
  case (Cons r rs)
  then show ?case by (cases r) (auto split: sum.splits)
qed

lemma set_somes: "set (somes xs) = {x. Some x \<in> set xs}"
  by (induction xs rule: somes.induct) auto

lemma importOne_Some:
  "importOne f c p ex item = Inr (Some t) \<Longrightarrow>
     status t = pending \<and> source t = bank_upload \<and> tid t \<notin> set ex
     \<and> deterministicId f item = Some (tid t)"
  by (auto simp: importOne_def Let_def split: option.splits if_splits)

lemma import_single_existing:
  "deterministicId f item = Some k \<Longrightarrow> k \<in> set (map tid ts) \<Longrightarrow>
     processImportedData f c p ts [item] = Inr (ts, 0, 1)"
  by (simp add: processImportedData_def importOne_def Let_def)

lemma import_single_new:
  "deterministicId f item = Some k \<Longrightarrow> k \<notin> set (map tid ts) \<Longrightarrow>
     \<exists>t. processImportedData f c p ts [item] = Inr (ts @ [t], 1, 0) \<and> tid t = k
         \<and> status t = pending \<and> source t = bank_upload"
  by (simp add: processImportedData_def importOne_def Let_def)

text \<open>
  Claim C4. Importing a row whose identity is already stored leaves the stored list as it
  is and counts one skip; importing a new row twice in a row stores it once, the second
  import being counted as a skip.
\<close>

theorem import_idempotent:
  assumes "deterministicId fracStr item = Some k"
  shows "(k \<in> set (map tid ts) \<longrightarrow>
            processImportedData fracStr categorize properties ts [item] = Inr (ts, 0, 1))
       \<and> (k \<notin> set (map tid ts) \<longrightarrow>
            (\<exists>t. processImportedData fracStr categorize properties ts [item] = Inr (ts @ [t], 1, 0)
               \<and> tid t = k
               \<and> processImportedData fracStr categorize properties (ts @ [t]) [item]
                   = Inr (ts @ [t], 0, 1)
               \<and> length (filter (\<lambda>u. tid u = k) (ts @ [t])) = 1))"
proof (intro conjI impI)
  assume "k \<in> set (map tid ts)"
  with assms show "processImportedData fracStr categorize properties ts [item] = Inr (ts, 0, 1)"
    by (rule import_single_existing)
next
  assume new: "k \<notin> set (map tid ts)"
  from import_single_new [OF assms new] obtain t where
    t: "processImportedData fracStr categorize properties ts [item] = Inr (ts @ [t], 1, 0)"
      "tid t = k" by blast
  have "k \<in> set (map tid (ts @ [t]))" using t(2) by simp
  with assms have again:
    "processImportedData fracStr categorize properties (ts @ [t]) [item] = Inr (ts @ [t], 0, 1)"
    by (rule import_single_existing)
  have "filter (\<lambda>u. tid u = k) ts = []" using new by (auto simp: filter_empty_conv)
  then have "length (filter (\<lambda>u. tid u = k) (ts @ [t])) = 1" using t(2) by simp
  with t again show "\<exists>t. processImportedData fracStr categorize properties ts [item]
        = Inr (ts @ [t], 1, 0) \<and> tid t = k
      \<and> processImportedData fracStr categorize properties (ts @ [t]) [item] = Inr (ts @ [t], 0, 1)
      \<and> length (filter (\<lambda>u. tid u = k) (ts @ [t])) = 1"
    by blast
qed

section \<open>Receipt matching\<close>

lemma set_insertBy: "set (insertBy cmp x xs) = insert x (set xs)"
  by (induction xs) auto

lemma set_sortBy: "set (sortBy cmp xs) = set xs"
  unfolding sortBy_def by (induction xs) (simp_all add: set_insertBy)

lemma diffDays_le_7:
  "(\<lceil>real_of_int d / (1000 * 60 * 60 * 24)\<rceil> \<le> 7) = (d \<le> 7 * 86400000)"
proof -
  have "(\<lceil>real_of_int d / (1000 * 60 * 60 * 24)\<rceil> \<le> 7) = (real_of_int d / 86400000 \<le> 7)"
    by (simp add: ceiling_le_iff)
  also have "\<dots> = (real_of_int d \<le> real_of_int (7 * 86400000))"
    by (simp add: field_simps)
  also have "\<dots> = (d \<le> 7 * 86400000)"
    by (simp only: of_int_le_iff)
  finally show ?thesis .
qed

lemma set_sortByDateDesc:
  assumes "\<And>xs. set (engineOrder xs) = set xs"
  shows "set (sortByDateDesc po engineOrder xs) = set xs"
  using assms by (simp add: sortByDateDesc_def set_sortBy)

lemma isMatchFor_candidate:
  assumes "isDateInTaxYear (date t) y" "amount t < 0"
    "category t \<noteq> PERSONAL_000" "category t \<noteq> UNCATEGORIZED"
  shows "isMatchFor po invc t = isCandidate po y invc t"
  using assms
  by (simp add: isMatchFor_def isCandidate_def Let_def diffDays_le_7 split: option.splits)

lemma isCandidate_expense:
  "isCandidate po y invc t \<Longrightarrow>
     isDateInTaxYear (date t) y \<and> amount t < 0
     \<and> category t \<noteq> PERSONAL_000 \<and> category t \<noteq> UNCATEGORIZED"
  by (simp add: isCandidate_def)

lemma in_expenseTransactions:
  assumes "\<And>xs. set (engineOrder xs) = set xs"
  shows "t \<in> set (expenseTransactions po engineOrder ts y) =
     (t \<in> set ts \<and> isDateInTaxYear (date t) y \<and> amount t < 0
      \<and> category t \<noteq> PERSONAL_000 \<and> category t \<noteq> UNCATEGORIZED)"
  by (auto simp: expenseTransactions_def set_sortByDateDesc [OF assms])

lemma find_split:
  "find P xs = Some m \<Longrightarrow> \<exists>pre post. xs = pre @ m # post \<and> P m \<and> \<not> list_ex P pre"
proof (induction xs)
  case Nil
  then show ?case by simp
next
  case (Cons x xs)
  show ?case
  proof (cases "P x")
    case True
    with Cons.prems have "x = m" by simp
    with True have "x # xs = [] @ m # xs \<and> P m \<and> \<not> list_ex P []" by simp
    then show ?thesis by blast
  next
    case False
    with Cons.prems have "find P xs = Some m" by simp
    from Cons.IH [OF this] obtain pre post where
      "xs = pre @ m # post" "P m" "\<not> list_ex P pre" by blast
    with False have "x # xs = (x # pre) @ m # post \<and> P m \<and> \<not> list_ex P (x # pre)" by simp
    then show ?thesis by blast
  qed
qed

lemma find_cong_set: "(\<And>x. x \<in> set xs \<Longrightarrow> P x = Q x) \<Longrightarrow> find P xs = find Q xs"
  by (induction xs) auto

lemma findMatch_candidate:
  assumes "\<And>xs. set (engineOrder xs) = set xs"
  shows "findMatch po engineOrder y invc ts =
     find (isCandidate po y invc) (expenseTransactions po engineOrder ts y)"
  unfolding findMatch_def
  by (rule find_cong_set) (simp add: in_expenseTransactions [OF assms] isMatchFor_candidate)

lemma getTime_samples:
  "getTime po (js ''2024-06-10'') = Some (19884 * 86400000)"
  "getTime po (js ''2024-06-15'') = Some (19889 * 86400000)"
  "getTime po (js ''2024-06-20'') = Some (19894 * 86400000)"
  by (simp_all add: getTime_def js_def isDigit_def digitsVal_def daysInMonth_def isLeap_def
      daysFromCivil_def Let_def)

lemma getTime_no_date: "getTime (\<lambda>s. None) (js ''2024-06-1x'') = None"
  by (simp add: getTime_def js_def isDigit_def)

lemma isDateInTaxYear_june:
  "isDateInTaxYear (js ''2024-06-15'') TY2024_2025"
  "isDateInTaxYear (js ''2024-06-20'') TY2024_2025"
  "isDateInTaxYear (js ''2024-06-1x'') TY2024_2025"
  by (simp_all add: isDateInTaxYear_def taxYearStart_def taxYearEnd_def showNat.simps
      digitChar_def js_def)

lemma sample_rows:
  "expenseTransactions po eo [txFiveDays] TY2024_2025 = [txFiveDays]"
  "expenseTransactions po eo [txTenDays] TY2024_2025 = [txTenDays]"
  "expenseTransactions po eo [txPersonal] TY2024_2025 = [txPersonal]"
  "expenseTransactions po eo [txFiveDays, txTenDays] TY2024_2025 = [txTenDays, txFiveDays]"
  by (simp_all add: expenseTransactions_def sortByDateDesc_def sortBy_def byDateDesc_def
      txFiveDays_def txTenDays_def txPersonal_def mkTx_def isDateInTaxYear_june
      getTime_samples enum_values js_eq_iff)

lemma sample_matches:
  "isMatchFor po scenarioInvoice txFiveDays"
  "\<not> isMatchFor po scenarioInvoice txTenDays"
  "isMatchFor po scenarioInvoice txPersonal"
  by (simp_all add: isMatchFor_def truthyStr_def scenarioInvoice_def txFiveDays_def
      txTenDays_def txPersonal_def mkTx_def getTime_samples Let_def)

lemma scenario_five_days:
  "findMatch po eo TY2024_2025 scenarioInvoice [txFiveDays] = Some txFiveDays"
  by (simp add: findMatch_def sample_rows sample_matches)

lemma scenario_ten_days:
  "findMatch po eo TY2024_2025 scenarioInvoice [txTenDays] = None"
  by (simp add: findMatch_def sample_rows sample_matches)

text \<open>
  A row tagged with the string \<open>PERSONAL_000\<close> is on the expense list and is matched: the
  test against \<open>HMRCCategory.PERSONAL_000\<close> compares with \<open>undefined\<close>.
\<close>

lemma personal_tag_matched:
  "findMatch po eo TY2024_2025 scenarioInvoice [txPersonal] = Some txPersonal"
  by (simp add: findMatch_def sample_rows sample_matches)

text \<open>
  Claim C7. Whatever order the engine gives the expense list when a date does not parse,
  as long as it keeps the rows of the list: the match of a receipt is the first row of the
  period's expense list that is a candidate, that is unlinked, within 0.10 of the receipt's
  amount and at most seven days from its date; there is no match exactly when no stored
  transaction is a candidate. A receipt of 45.00 matches an expense of 45.05 five days
  later and does not match the same expense ten days later.
\<close>

theorem invoice_match_exact:
  assumes "\<And>xs. set (engineOrder xs) = set xs"
  shows "(case findMatch parseOther engineOrder y invc ts of
      None \<Rightarrow> \<not> list_ex (isCandidate parseOther y invc) ts
    | Some m \<Rightarrow>
        m \<in> set ts \<and> isCandidate parseOther y invc m
        \<and> (\<exists>pre post. expenseTransactions parseOther engineOrder ts y = pre @ m # post
              \<and> \<not> list_ex (isCandidate parseOther y invc) pre))
   \<and> findMatch parseOther engineOrder TY2024_2025 scenarioInvoice [txFiveDays]
       = Some txFiveDays
   \<and> findMatch parseOther engineOrder TY2024_2025 scenarioInvoice [txTenDays] = None"
proof (intro conjI)
  let ?P = "isCandidate parseOther y invc"
  let ?xs = "expenseTransactions parseOther engineOrder ts y"
  note mem = in_expenseTransactions [OF assms, of _ parseOther ts y]
  note fm = findMatch_candidate [OF assms, of parseOther y invc ts]
  show "case findMatch parseOther engineOrder y invc ts of
      None \<Rightarrow> \<not> list_ex ?P ts
    | Some m \<Rightarrow> m \<in> set ts \<and> ?P m
        \<and> (\<exists>pre post. ?xs = pre @ m # post \<and> \<not> list_ex ?P pre)"
  proof (cases "find ?P ?xs")
    case None
    have "\<not> ?P t" if "t \<in> set ts" for t
    proof
      assume c: "?P t"
      with that have "t \<in> set ?xs"
        using isCandidate_expense [OF c] by (simp only: mem simp_thms)
      with None c show False by (simp only: find_None_iff) blast
    qed
    then have "\<not> list_ex ?P ts" by (simp only: list_ex_iff) blast
    moreover from None have "findMatch parseOther engineOrder y invc ts = None"
      by (simp only: fm)
    ultimately show ?thesis by simp
  next
    case (Some m)
    from find_split [OF Some] obtain pre post where
      sp: "?xs = pre @ m # post" "?P m" "\<not> list_ex ?P pre" by blast
    from sp(1) have "m \<in> set ?xs" by simp
    then have "m \<in> set ts" by (simp only: mem)
    with sp have "m \<in> set ts \<and> ?P m
        \<and> (\<exists>pre post. ?xs = pre @ m # post \<and> \<not> list_ex ?P pre)" by blast
    moreover from Some have "findMatch parseOther engineOrder y invc ts = Some m"
      by (simp only: fm)
    ultimately show ?thesis by simp
  qed
  show "findMatch parseOther engineOrder TY2024_2025 scenarioInvoice [txFiveDays]
      = Some txFiveDays"
    by (rule scenario_five_days)
  show "findMatch parseOther engineOrder TY2024_2025 scenarioInvoice [txTenDays] = None"
    by (rule scenario_ten_days)
qed

theorem invoice_match_exact_witness:
  "(\<forall>xs :: Transaction list. set (rev xs) = set xs)
   \<and> findMatch (\<lambda>s. None) rev TY2024_2025 scenarioInvoice [txNoDate, txTenDays, txFiveDays]
       = Some txFiveDays
   \<and> txFiveDays \<in> set [txNoDate, txTenDays, txFiveDays]
   \<and> isCandidate (\<lambda>s. None) TY2024_2025 scenarioInvoice txFiveDays
   \<and> findMatch (\<lambda>s. None) rev TY2024_2025 scenarioInvoice [txTenDays] = None"
proof -
  have keep: "\<And>xs :: Transaction list. set (rev xs) = set xs" by simp
  have rows: "expenseTransactions (\<lambda>s. None) rev [txNoDate, txTenDays, txFiveDays] TY2024_2025
      = [txFiveDays, txTenDays, txNoDate]"
    by (simp add: expenseTransactions_def sortByDateDesc_def txFiveDays_def txTenDays_def
        txNoDate_def mkTx_def isDateInTaxYear_june getTime_no_date enum_values js_eq_iff)
  have fm: "findMatch (\<lambda>s. None) rev TY2024_2025 scenarioInvoice
      [txNoDate, txTenDays, txFiveDays] = Some txFiveDays"
    by (simp add: findMatch_def rows sample_matches)
  from invoice_match_exact [of rev "\<lambda>s. None" TY2024_2025 scenarioInvoice
      "[txNoDate, txTenDays, txFiveDays]", OF keep] fm
  show ?thesis by simp
qed

section \<open>Link symmetry under the mutations\<close>

lemma linkedStore_reached:
  "processFile parseOther engineOrder TY2024_2025 (js ''inv1'') (js ''2024-06-12'') (js ''data'')
     (OcrOk scenarioExtract) ([txFiveDays], []) = linkedStore"
proof -
  have inv: "\<lparr> iid = js ''inv1'', idate = orStr (exDate scenarioExtract) (js ''2024-06-12''),
        vendor = orStr (exVendor scenarioExtract) (js ''Unknown Vendor''),
        iamount = (case exAmount scenarioExtract of None \<Rightarrow> 0 | Some a \<Rightarrow> a),
        idescription = orStr (exDescription scenarioExtract) (js ''Uploaded Invoice''),
        istatus = unmatched, base64Image = Some (js ''data''),
        matchedTransactionId = None \<rparr>
      = scenarioInvoice\<lparr>base64Image := Some (js ''data'')\<rparr>"
    by (simp add: scenarioExtract_def scenarioInvoice_def orStr_def js_def)
  have fm: "findMatch parseOther engineOrder TY2024_2025
      (scenarioInvoice\<lparr>base64Image := Some (js ''data'')\<rparr>)
      [txFiveDays] = Some txFiveDays"
  proof -
    have "isMatchFor parseOther (scenarioInvoice\<lparr>base64Image := Some (js ''data'')\<rparr>)
        = isMatchFor parseOther scenarioInvoice"
      by (rule ext) (simp add: isMatchFor_def)
    then show ?thesis
      using scenario_five_days [of parseOther engineOrder] by (simp add: findMatch_def)
  qed
  have t: "tid txFiveDays = js ''t5d''" "iid scenarioInvoice = js ''inv1''"
    by (simp_all add: txFiveDays_def mkTx_def scenarioInvoice_def)
  show ?thesis
    by (simp add: processFile_def Let_def inv fm linkedStore_def t)
qed

text \<open>
  Claim C2 fails on the code. After a receipt has been matched the links are symmetric, and
  deleting the receipt keeps them so. Deleting the linked transaction, alone or by a bulk
  selection, leaves the receipt \<open>matched\<close> and naming a transaction that no longer exists,
  and toggling the linked transaction sets it back to \<open>pending\<close> while the receipt stays
  \<open>matched\<close>.
\<close>

theorem link_symmetry_broken:
  "linkSymmetric linkedStore
   \<and> linkSymmetric (deleteInvoice True (js ''inv1'') linkedStore)
   \<and> \<not> linkSymmetric
         (fst (executeDelete (Single (js ''t5d'')) [] (fst linkedStore)), snd linkedStore)
   \<and> \<not> linkSymmetric
         (fst (executeDelete Bulk [js ''t5d''] (fst linkedStore)), snd linkedStore)
   \<and> \<not> linkSymmetric (toggleMatch (js ''t5d'') (fst linkedStore), snd linkedStore)"
  by (simp add: linkSymmetric_def linkedStore_def invoiceLinked_def transactionLinked_def
      deleteInvoice_def executeDelete_def toggleMatch_def truthyStr_def Let_def
      txFiveDays_def mkTx_def scenarioInvoice_def js_def)

section \<open>Status and origin of new transactions\<close>

lemma length_somes:
  "length (somes xs) + length (filter (\<lambda>r. r = None) xs) = length xs"
  by (induction xs rule: somes.induct) auto

lemma import_batch:
  assumes "processImportedData f c p ts items = Inr (ts', a, s)"
  shows "\<exists>new. ts' = ts @ new \<and> length new = a \<and> a + s = length items
           \<and> list_all (\<lambda>t. status t = pending \<and> source t = bank_upload
                            \<and> tid t \<notin> set (map tid ts)) new"
proof -
  from assms obtain outcomes where
    col: "collect (map (importOne f c p (map tid ts)) items) = Inr outcomes"
    and res: "ts' = ts @ somes outcomes" "a = length (somes outcomes)"
      "s = length (filter (\<lambda>r. r = None) outcomes)"
    by (auto simp: processImportedData_def Let_def split: sum.splits if_splits)
  from collect_Inr [OF col] have m: "map (importOne f c p (map tid ts)) items = map Inr outcomes" .
  then have len: "length items = length outcomes"
    by (metis length_map)
  have "status t = pending \<and> source t = bank_upload \<and> tid t \<notin> set (map tid ts)"
    if "t \<in> set (somes outcomes)" for t
  proof -
    from that have "Some t \<in> set outcomes" by (simp add: set_somes)
    then have "Inr (Some t) \<in> set (map (importOne f c p (map tid ts)) items)"
      by (simp only: m) simp
    then obtain item where "importOne f c p (map tid ts) item = Inr (Some t)" by auto
    from importOne_Some [OF this] show ?thesis by simp
  qed
  then have "list_all (\<lambda>t. status t = pending \<and> source t = bank_upload
       \<and> tid t \<notin> set (map tid ts)) (somes outcomes)"
    by (simp only: list_all_iff) blast
  with res len length_somes [of outcomes] show ?thesis by auto
qed

lemma manual_added:
  assumes "parseFloat (manualAmount form) = Some amt" "manualDesc form \<noteq> []"
    "manualId f form amt now = Some k"
  shows "handleManualAdd parseFloat f now form ts =
     Inr (ts @ [\<lparr> tid = k, date = manualDate form, description = manualDesc form,
                   amount = amt, propertyId = manualPropId form, category = manualCat form,
                   status = reconciled, source = manual, matchedInvoiceId = None,
                   tag = manualTag form \<rparr>])"
  using assms by (simp add: handleManualAdd_def)

lemma manual_result:
  assumes "handleManualAdd parseFloat f now form ts = Inr ts'"
  shows "ts' = ts \<or> (\<exists>t. ts' = ts @ [t] \<and> status t = reconciled \<and> source t = manual)"
  using assms by (auto simp: handleManualAdd_def split: option.splits if_splits)

text \<open>
  Claim C10. A manual entry that is accepted is appended with status \<open>reconciled\<close> and
  source \<open>manual\<close>, and the operation stores nothing else; every transaction an import appends
  has status \<open>pending\<close> and source \<open>bank_upload\<close>.
\<close>

theorem manual_born_reconciled:
  "(parseFloat (manualAmount form) = Some amt \<and> manualDesc form \<noteq> []
      \<and> manualId fracStr form amt now = Some k \<longrightarrow>
      handleManualAdd parseFloat fracStr now form ts =
        Inr (ts @ [\<lparr> tid = k, date = manualDate form, description = manualDesc form,
                      amount = amt, propertyId = manualPropId form,
                      category = manualCat form, status = reconciled, source = manual,
                      matchedInvoiceId = None, tag = manualTag form \<rparr>]))
   \<and> (handleManualAdd parseFloat fracStr now form ts = Inr ts' \<longrightarrow>
        ts' = ts \<or> (\<exists>t. ts' = ts @ [t] \<and> status t = reconciled \<and> source t = manual))
   \<and> (processImportedData fracStr categorize properties ts items = Inr (ts2, a, s) \<longrightarrow>
        (\<exists>new. ts2 = ts @ new
           \<and> list_all (\<lambda>t. status t = pending \<and> source t = bank_upload) new))"
proof (intro conjI impI)
  assume "parseFloat (manualAmount form) = Some amt \<and> manualDesc form \<noteq> []
      \<and> manualId fracStr form amt now = Some k"
  then show "handleManualAdd parseFloat fracStr now form ts =
        Inr (ts @ [\<lparr> tid = k, date = manualDate form, description = manualDesc form,
                      amount = amt, propertyId = manualPropId form,
                      category = manualCat form, status = reconciled, source = manual,
                      matchedInvoiceId = None, tag = manualTag form \<rparr>])"
    by (simp add: manual_added)
next
  assume "handleManualAdd parseFloat fracStr now form ts = Inr ts'"
  then show "ts' = ts \<or> (\<exists>t. ts' = ts @ [t] \<and> status t = reconciled \<and> source t = manual)"
    by (rule manual_result)
next
  assume "processImportedData fracStr categorize properties ts items = Inr (ts2, a, s)"
  from import_batch [OF this] obtain new where
    n: "ts2 = ts @ new"
      "list_all (\<lambda>t. status t = pending \<and> source t = bank_upload
          \<and> tid t \<notin> set (map tid ts)) new" by blast
  from n(2) have "list_all (\<lambda>t. status t = pending \<and> source t = bank_upload) new"
    by (simp add: list_all_iff)
  with n(1) show "\<exists>new. ts2 = ts @ new
           \<and> list_all (\<lambda>t. status t = pending \<and> source t = bank_upload) new" by blast
qed

theorem manual_born_reconciled_witness:
  "\<forall>fracStr.
     sampleParseFloat (manualAmount formA) = Some (- 120) \<and> manualDesc formA \<noteq> []
     \<and> manualId fracStr formA (- 120) 1700000000000 = Some (js ''bWFudWFsLTIwMjQt'')
     \<and> handleManualAdd sampleParseFloat fracStr 1700000000000 formA scenarioLedger =
        Inr (scenarioLedger @
          [\<lparr> tid = js ''bWFudWFsLTIwMjQt'', date = js ''2024-05-01'', description = js ''Plumber'',
             amount = - 120, propertyId = js ''p1'', category = REPAIRS_101,
             status = reconciled, source = manual, matchedInvoiceId = None, tag = None \<rparr>])
     \<and> processImportedData fracStr sampleCategorize [] [] [rowA] =
        Inr ([\<lparr> tid = js ''MjAyNC0wNS0wMS1S'', date = js ''2024-05-01'',
                 description = js ''Rent flat A'', amount = 850, propertyId = [],
                 category = RENTAL_INC_001, status = pending, source = bank_upload,
                 matchedInvoiceId = None, tag = None \<rparr>], 1, 0)"
proof
  fix fracStr
  have h1: "sampleParseFloat (manualAmount formA) = Some (- 120)"
    by (simp add: sampleParseFloat_def formA_def)
  have h2: "manualDesc formA \<noteq> []" by (simp add: formA_def js_def)
  have h3: "manualId fracStr formA (- 120) 1700000000000 = Some (js ''bWFudWFsLTIwMjQt'')"
    by (rule formA_id)
  have imp: "processImportedData fracStr sampleCategorize [] [] [rowA] =
        Inr ([\<lparr> tid = js ''MjAyNC0wNS0wMS1S'', date = js ''2024-05-01'',
                 description = js ''Rent flat A'', amount = 850, propertyId = [],
                 category = RENTAL_INC_001, status = pending, source = bank_upload,
                 matchedInvoiceId = None, tag = None \<rparr>], 1, 0)"
    by (simp add: processImportedData_def importOne_def rowA_id Let_def sampleCategorize_def
        assignedPropertyId_def) (simp add: rowA_def)
  from manual_born_reconciled [of sampleParseFloat formA "- 120" fracStr 1700000000000
      "js ''bWFudWFsLTIwMjQt''" scenarioLedger]
    h1 h2 h3
  have "handleManualAdd sampleParseFloat fracStr 1700000000000 formA scenarioLedger =
        Inr (scenarioLedger @
          [\<lparr> tid = js ''bWFudWFsLTIwMjQt'', date = manualDate formA,
             description = manualDesc formA, amount = - 120, propertyId = manualPropId formA,
             category = manualCat formA, status = reconciled, source = manual,
             matchedInvoiceId = None, tag = manualTag formA \<rparr>])"
    by blast
  then have "handleManualAdd sampleParseFloat fracStr 1700000000000 formA scenarioLedger =
        Inr (scenarioLedger @
          [\<lparr> tid = js ''bWFudWFsLTIwMjQt'', date = js ''2024-05-01'', description = js ''Plumber'',
             amount = - 120, propertyId = js ''p1'', category = REPAIRS_101,
             status = reconciled, source = manual, matchedInvoiceId = None, tag = None \<rparr>])"
    by (simp add: formA_def)
  with h1 h2 h3 imp show "sampleParseFloat (manualAmount formA) = Some (- 120) \<and> manualDesc formA \<noteq> []
     \<and> manualId fracStr formA (- 120) 1700000000000 = Some (js ''bWFudWFsLTIwMjQt'')
     \<and> handleManualAdd sampleParseFloat fracStr 1700000000000 formA scenarioLedger =
        Inr (scenarioLedger @
          [\<lparr> tid = js ''bWFudWFsLTIwMjQt'', date = js ''2024-05-01'', description = js ''Plumber'',
             amount = - 120, propertyId = js ''p1'', category = REPAIRS_101,
             status = reconciled, source = manual, matchedInvoiceId = None, tag = None \<rparr>])
     \<and> processImportedData fracStr sampleCategorize [] [] [rowA] =
        Inr ([\<lparr> tid = js ''MjAyNC0wNS0wMS1S'', date = js ''2024-05-01'',
                 description = js ''Rent flat A'', amount = 850, propertyId = [],
                 category = RENTAL_INC_001, status = pending, source = bank_upload,
                 matchedInvoiceId = None, tag = None \<rparr>], 1, 0)"
    by (intro conjI)
qed

theorem import_idempotent_witness:
  "\<forall>fracStr.
     deterministicId fracStr rowA = Some (js ''MjAyNC0wNS0wMS1S'')
     \<and> js ''MjAyNC0wNS0wMS1S'' \<notin> set (map tid scenarioLedger)
     \<and> (\<exists>t. processImportedData fracStr sampleCategorize [] scenarioLedger [rowA]
               = Inr (scenarioLedger @ [t], 1, 0)
           \<and> tid t = js ''MjAyNC0wNS0wMS1S''
           \<and> processImportedData fracStr sampleCategorize [] (scenarioLedger @ [t]) [rowA]
               = Inr (scenarioLedger @ [t], 0, 1)
           \<and> length (filter (\<lambda>u. tid u = js ''MjAyNC0wNS0wMS1S'') (scenarioLedger @ [t])) = 1)"
proof
  fix fracStr
  have h: "deterministicId fracStr rowA = Some (js ''MjAyNC0wNS0wMS1S'')" by (rule rowA_id)
  have n: "js ''MjAyNC0wNS0wMS1S'' \<notin> set (map tid scenarioLedger)"
    by (simp add: scenarioLedger_def mkTx_def js_def)
  from import_idempotent [OF h, of scenarioLedger sampleCategorize "[]"] n h
  show "deterministicId fracStr rowA = Some (js ''MjAyNC0wNS0wMS1S'')
     \<and> js ''MjAyNC0wNS0wMS1S'' \<notin> set (map tid scenarioLedger)
     \<and> (\<exists>t. processImportedData fracStr sampleCategorize [] scenarioLedger [rowA]
               = Inr (scenarioLedger @ [t], 1, 0)
           \<and> tid t = js ''MjAyNC0wNS0wMS1S''
           \<and> processImportedData fracStr sampleCategorize [] (scenarioLedger @ [t]) [rowA]
               = Inr (scenarioLedger @ [t], 0, 1)
           \<and> length (filter (\<lambda>u. tid u = js ''MjAyNC0wNS0wMS1S'') (scenarioLedger @ [t])) = 1)"
    by blast
qed

section \<open>The categorization result\<close>

lemma cleanJson_samples:
  "cleanJson foreignReply = foreignReply"
  "cleanJson proseReply = proseReply"
  by (simp_all add: cleanJson_def foreignReply_def proseReply_def js_def stripFence.simps
      dropNewline_def trim_def isWhiteSpace_def upToLast_def Let_def)

lemma getProp_unknown: "v \<noteq> JNull \<Longrightarrow> v \<noteq> JUndefined \<Longrightarrow> \<exists>x. getProp v k = Some x"
  by (cases v) (auto simp: getProp_def split: option.splits)

lemma categorize_parse_failure:
  assumes "jsonParse (cleanJson text) = None"
  shows "categorizeTransaction jsonParse (Text text) =
     \<lparr> crCategory = UNCATEGORIZED, crPropertyId = JUndefined,
       crConfidence = JNum 0.5, crReasoning = JUndefined \<rparr>"
  using assms
  by (simp add: categorizeTransaction_def robustJsonParse_def getProp_def orElse_def
      truthy_def)

lemma categorize_category:
  assumes "jsonParse (cleanJson text) = Some v" "getProp v (js ''category'') = Some c"
  shows "crCategory (categorizeTransaction jsonParse (Text text)) =
     (if truthy c then c else UNCATEGORIZED)"
proof -
  from assms(2) have nn: "v \<noteq> JNull" "v \<noteq> JUndefined" by (auto simp: getProp_def)
  from getProp_unknown [OF nn] obtain p k r where
    "getProp v (js ''propertyId'') = Some p" "getProp v (js ''confidence'') = Some k"
    "getProp v (js ''reasoning'') = Some r" by metis
  with assms show ?thesis
    by (simp add: categorizeTransaction_def robustJsonParse_def orElse_def)
qed

text \<open>
  What the function returns, for every \<open>JSON.parse\<close>: the fallback with confidence 0 when
  the collaborator call throws; uncategorized with confidence 0.5 when no payload can be
  parsed; and otherwise the payload's category value as it is when it is truthy.
\<close>

lemma categorize_result:
  "categorizeTransaction jsonParse Threw =
     \<lparr> crCategory = UNCATEGORIZED, crPropertyId = JUndefined,
       crConfidence = JNum 0, crReasoning = JUndefined \<rparr>
   \<and> (jsonParse (cleanJson text) = None \<longrightarrow>
        categorizeTransaction jsonParse (Text text) =
          \<lparr> crCategory = UNCATEGORIZED, crPropertyId = JUndefined,
            crConfidence = JNum 0.5, crReasoning = JUndefined \<rparr>)
   \<and> (jsonParse (cleanJson text) = Some v \<and> getProp v (js ''category'') = Some c \<longrightarrow>
        crCategory (categorizeTransaction jsonParse (Text text)) =
          (if truthy c then c else UNCATEGORIZED))"
  by (simp add: categorize_parse_failure categorize_category)
    (simp add: categorizeTransaction_def fallbackResult_def)

text \<open>
  Claim C6 fails on the code. The answer \<open>{"category":"FOO_999"}\<close> is returned with the
  category \<open>FOO_999\<close>, which is no code of the enumeration and for which the specification
  asks uncategorized. An answer from which no payload can be extracted is returned as
  uncategorized with confidence 0.5. The fallback with confidence 0 is returned when the
  collaborator call throws.
\<close>

theorem category_not_validated:
  "crCategory (categorizeTransaction sampleJsonParse (Text foreignReply)) = JStr (js ''FOO_999'')
   \<and> \<not> isKnownCategory (JStr (js ''FOO_999''))
   \<and> specCategory (JStr (js ''FOO_999'')) = JStr (js ''UNCATEGORIZED'')
   \<and> sampleJsonParse (cleanJson proseReply) = None
   \<and> crCategory (categorizeTransaction sampleJsonParse (Text proseReply))
       = JStr (js ''UNCATEGORIZED'')
   \<and> crConfidence (categorizeTransaction sampleJsonParse (Text proseReply)) = JNum 0.5
   \<and> crConfidence (categorizeTransaction sampleJsonParse Threw) = JNum 0"
proof -
  have p: "sampleJsonParse (cleanJson foreignReply)
      = Some (JObj [(js ''category'', JStr (js ''FOO_999''))])"
    by (simp add: cleanJson_samples sampleJsonParse_def)
  have g: "getProp (JObj [(js ''category'', JStr (js ''FOO_999''))]) (js ''category'')
      = Some (JStr (js ''FOO_999''))"
    by (simp add: getProp_def)
  have t: "truthy (JStr (js ''FOO_999''))" by (simp add: truthy_def js_def)
  have a: "crCategory (categorizeTransaction sampleJsonParse (Text foreignReply))
      = JStr (js ''FOO_999'')"
    using categorize_category [of sampleJsonParse foreignReply, OF p g] t by simp
  have b: "\<not> isKnownCategory (JStr (js ''FOO_999''))"
    by (simp add: isKnownCategory_def HMRCCategory_def js_def)
  have c: "specCategory (JStr (js ''FOO_999'')) = JStr (js ''UNCATEGORIZED'')"
    using b by (simp add: specCategory_def enum_values)
  have d: "sampleJsonParse (cleanJson proseReply) = None"
    by (simp only: cleanJson_samples)
      (simp add: sampleJsonParse_def proseReply_def foreignReply_def js_def)
  have e: "crConfidence (categorizeTransaction sampleJsonParse Threw) = JNum 0"
    by (simp add: categorizeTransaction_def fallbackResult_def)
  from categorize_parse_failure [of sampleJsonParse proseReply, OF d] a b c d e
  show ?thesis by (simp add: enum_values)
qed

end
